theory Spec2Isabelle
  imports Complex_Main "HOL-Library.Monad_Syntax" "HOL-Library.Option_ord" "HOL-Library.AList"
    "HOL-Library.Log_Nat"
begin

section \<open>Data frames\<close>

text \<open>
  The source works on polars data frames. A frame is modelled as the list of its rows, a
  row as the association list of its columns (column name, value) in column order, and a
  value as a nullable, dynamically typed cell. Floating-point columns are idealised as
  reals (no rounding, no NaN); the validation ratio, on which the split does arithmetic,
  is a binary64 float. Every operation that can raise returns an option:
  \<open>None\<close> is the exception that aborts the build (a missing column, an operand of the wrong
  dtype, a failed strict cast).
\<close>

datatype cell = Null | IntV int | FloatV real | StrV string | BoolV bool

type_synonym row = "(string \<times> cell) list"
type_synonym dataframe = "row list"

text \<open>A polars expression, evaluated for one row of a frame; window expressions read the frame.\<close>

type_synonym expr = "dataframe \<Rightarrow> row \<Rightarrow> cell option"

primrec each :: "('a \<Rightarrow> 'b option) \<Rightarrow> 'a list \<Rightarrow> 'b list option" where
  "each f [] = Some []"
| "each f (x # xs) = do { y \<leftarrow> f x; ys \<leftarrow> each f xs; Some (y # ys) }"

subsection \<open>Cells\<close>

fun num :: "cell \<Rightarrow> real option" where
  "num (IntV i) = Some (of_int i)"
| "num (FloatV v) = Some v"
| "num _ = None"

fun as_bool :: "cell \<Rightarrow> bool option option" where
  "as_bool (BoolV b) = Some (Some b)"
| "as_bool Null = Some None"
| "as_bool _ = None"

text \<open>Comparison: null if an operand is null; operands of dtypes that do not compare raise.\<close>

fun cell_eq :: "cell \<Rightarrow> cell \<Rightarrow> cell option" where
  "cell_eq Null _ = Some Null"
| "cell_eq _ Null = Some Null"
| "cell_eq (StrV s) (StrV t) = Some (BoolV (s = t))"
| "cell_eq (BoolV a) (BoolV b) = Some (BoolV (a = b))"
| "cell_eq a b = (case (num a, num b) of (Some v, Some w) \<Rightarrow> Some (BoolV (v = w)) | _ \<Rightarrow> None)"

fun cell_lt :: "cell \<Rightarrow> cell \<Rightarrow> cell option" where
  "cell_lt Null _ = Some Null"
| "cell_lt _ Null = Some Null"
| "cell_lt a b = (case (num a, num b) of (Some v, Some w) \<Rightarrow> Some (BoolV (v < w)) | _ \<Rightarrow> None)"

text \<open>The Boolean operators \<open>~\<close>, \<open>&\<close> and \<open>|\<close> of a Boolean series: three-valued.\<close>

fun cell_not :: "cell \<Rightarrow> cell option" where
  "cell_not (BoolV b) = Some (BoolV (\<not> b))"
| "cell_not Null = Some Null"
| "cell_not _ = None"

fun cell_and :: "cell \<Rightarrow> cell \<Rightarrow> cell option" where
  "cell_and (BoolV a) (BoolV b) = Some (BoolV (a \<and> b))"
| "cell_and (BoolV a) Null = Some (if a then Null else BoolV False)"
| "cell_and Null (BoolV b) = Some (if b then Null else BoolV False)"
| "cell_and Null Null = Some Null"
| "cell_and _ _ = None"

fun cell_or :: "cell \<Rightarrow> cell \<Rightarrow> cell option" where
  "cell_or (BoolV a) (BoolV b) = Some (BoolV (a \<or> b))"
| "cell_or (BoolV a) Null = Some (if a then BoolV True else Null)"
| "cell_or Null (BoolV b) = Some (if b then BoolV True else Null)"
| "cell_or Null Null = Some Null"
| "cell_or _ _ = None"

text \<open>\<open>when(c).then(a).otherwise(b)\<close>: \<open>a\<close> where \<open>c\<close> is true, \<open>b\<close> where it is false or null.\<close>

definition cell_when :: "cell \<Rightarrow> cell \<Rightarrow> cell \<Rightarrow> cell option" where
  "cell_when c a b = do { _ \<leftarrow> as_bool c; Some (if c = BoolV True then a else b) }"

subsection \<open>Expressions\<close>

definition pl_col :: "string \<Rightarrow> expr" where
  "pl_col c = (\<lambda>df r. map_of r c)"

definition pl_lit :: "cell \<Rightarrow> expr" where
  "pl_lit v = (\<lambda>df r. Some v)"

definition lift1 :: "(cell \<Rightarrow> cell option) \<Rightarrow> expr \<Rightarrow> expr" where
  "lift1 f e = (\<lambda>df r. do { v \<leftarrow> e df r; f v })"

definition lift2 :: "(cell \<Rightarrow> cell \<Rightarrow> cell option) \<Rightarrow> expr \<Rightarrow> expr \<Rightarrow> expr" where
  "lift2 f a b = (\<lambda>df r. do { v \<leftarrow> a df r; w \<leftarrow> b df r; f v w })"

definition pl_eq :: "expr \<Rightarrow> expr \<Rightarrow> expr" where
  "pl_eq = lift2 cell_eq"

definition pl_ne :: "expr \<Rightarrow> expr \<Rightarrow> expr" where
  "pl_ne a b = lift1 cell_not (pl_eq a b)"

definition pl_lt :: "expr \<Rightarrow> expr \<Rightarrow> expr" where
  "pl_lt = lift2 cell_lt"

definition pl_gt :: "expr \<Rightarrow> expr \<Rightarrow> expr" where
  "pl_gt a b = pl_lt b a"

definition pl_when :: "expr \<Rightarrow> expr \<Rightarrow> expr \<Rightarrow> expr" where
  "pl_when c a b = (\<lambda>df r. do { p \<leftarrow> c df r; v \<leftarrow> a df r; w \<leftarrow> b df r; cell_when p v w })"

definition pl_is_null :: "expr \<Rightarrow> expr" where
  "pl_is_null = lift1 (\<lambda>v. Some (BoolV (v = Null)))"

definition pl_is_not_null :: "expr \<Rightarrow> expr" where
  "pl_is_not_null = lift1 (\<lambda>v. Some (BoolV (v \<noteq> Null)))"

definition pl_not :: "expr \<Rightarrow> expr" where
  "pl_not = lift1 cell_not"

text \<open>\<open>is_in\<close> on a string column.\<close>

definition pl_is_in :: "expr \<Rightarrow> string list \<Rightarrow> expr" where
  "pl_is_in e xs =
     lift1 (\<lambda>v. case v of Null \<Rightarrow> Some Null | StrV s \<Rightarrow> Some (BoolV (s \<in> set xs)) | _ \<Rightarrow> None) e"

text \<open>Arithmetic on numeric columns; null if an operand is null.\<close>

definition float1 :: "(real \<Rightarrow> real) \<Rightarrow> cell \<Rightarrow> cell option" where
  "float1 f v = (if v = Null then Some Null else map_option (\<lambda>a. FloatV (f a)) (num v))"

definition pl_radians :: "expr \<Rightarrow> expr" where
  "pl_radians = lift1 (float1 (\<lambda>d. d * pi / 180))"

definition pl_cos :: "expr \<Rightarrow> expr" where
  "pl_cos = lift1 (float1 cos)"

definition pl_sin :: "expr \<Rightarrow> expr" where
  "pl_sin = lift1 (float1 sin)"

fun cell_mul :: "cell \<Rightarrow> cell \<Rightarrow> cell option" where
  "cell_mul Null _ = Some Null"
| "cell_mul _ Null = Some Null"
| "cell_mul (IntV a) (IntV b) = Some (IntV (a * b))"
| "cell_mul a b = (case (num a, num b) of (Some v, Some w) \<Rightarrow> Some (FloatV (v * w)) | _ \<Rightarrow> None)"

definition pl_mul :: "expr \<Rightarrow> expr \<Rightarrow> expr" where
  "pl_mul = lift2 cell_mul"

text \<open>
  Strict casts. Parsing a string is the library's: \<open>str_to_nat\<close> and \<open>str_to_float\<close> are its
  parsers of an unsigned integer and of a float, \<open>None\<close> where the strict cast raises.
\<close>

record casts =
  str_to_nat :: "string \<Rightarrow> nat option"
  str_to_float :: "string \<Rightarrow> real option"

definition cast_uint16 :: "casts \<Rightarrow> cell \<Rightarrow> cell option" where
  "cast_uint16 lib v =
     (case v of
        Null \<Rightarrow> Some Null
      | StrV s \<Rightarrow>
          (case str_to_nat lib s of
             Some n \<Rightarrow> if n < 65536 then Some (IntV (int n)) else None
           | None \<Rightarrow> None)
      | IntV i \<Rightarrow> if 0 \<le> i \<and> i < 65536 then Some (IntV i) else None
      | _ \<Rightarrow> None)"

definition cast_float64 :: "casts \<Rightarrow> cell \<Rightarrow> cell option" where
  "cast_float64 lib v =
     (case v of
        Null \<Rightarrow> Some Null
      | StrV s \<Rightarrow> map_option FloatV (str_to_float lib s)
      | IntV i \<Rightarrow> Some (FloatV (of_int i))
      | FloatV a \<Rightarrow> Some (FloatV a)
      | BoolV b \<Rightarrow> Some (FloatV (if b then 1 else 0)))"

text \<open>\<open>cast(pl.Int8)\<close> of a Boolean column.\<close>

definition cast_int8 :: "cell \<Rightarrow> cell option" where
  "cast_int8 v =
     (case v of
        Null \<Rightarrow> Some Null
      | BoolV b \<Rightarrow> Some (IntV (if b then 1 else 0))
      | IntV i \<Rightarrow> if - 128 \<le> i \<and> i < 128 then Some (IntV i) else None
      | _ \<Rightarrow> None)"

text \<open>Arithmetic in \<open>UInt16\<close> wraps around.\<close>

fun mul_u16 :: "cell \<Rightarrow> cell \<Rightarrow> cell option" where
  "mul_u16 Null _ = Some Null"
| "mul_u16 _ Null = Some Null"
| "mul_u16 (IntV a) (IntV b) = Some (IntV ((a * b) mod 65536))"
| "mul_u16 _ _ = None"

fun add_u16 :: "cell \<Rightarrow> cell \<Rightarrow> cell option" where
  "add_u16 Null _ = Some Null"
| "add_u16 _ Null = Some Null"
| "add_u16 (IntV a) (IntV b) = Some (IntV ((a + b) mod 65536))"
| "add_u16 _ _ = None"

subsection \<open>Strings\<close>

fun split_on :: "char \<Rightarrow> string \<Rightarrow> string list" where
  "split_on c [] = [[]]"
| "split_on c (x # xs) =
     (if x = c then [] # split_on c xs
      else (case split_on c xs of [] \<Rightarrow> [[x]] | p # ps \<Rightarrow> (x # p) # ps))"

text \<open>\<open>str.split(sep).list.get(i)\<close>: an index out of range raises.\<close>

definition pl_str_split_get :: "char \<Rightarrow> nat \<Rightarrow> expr \<Rightarrow> expr" where
  "pl_str_split_get sep i =
     lift1 (\<lambda>v. case v of
                  Null \<Rightarrow> Some Null
                | StrV s \<Rightarrow> (let ps = split_on sep s in if i < length ps then Some (StrV (ps ! i)) else None)
                | _ \<Rightarrow> None)"

fun replace_first :: "string \<Rightarrow> string \<Rightarrow> string \<Rightarrow> string" where
  "replace_first pat rep [] = (if pat = [] then rep else [])"
| "replace_first pat rep (c # cs) =
     (if take (length pat) (c # cs) = pat then rep @ drop (length pat) (c # cs)
      else c # replace_first pat rep cs)"

definition pl_str_replace :: "string \<Rightarrow> string \<Rightarrow> expr \<Rightarrow> expr" where
  "pl_str_replace pat rep =
     lift1 (\<lambda>v. case v of Null \<Rightarrow> Some Null | StrV s \<Rightarrow> Some (StrV (replace_first pat rep s)) | _ \<Rightarrow> None)"

subsection \<open>Window expressions\<close>

text \<open>
  \<open>e.filter(p).first().over(keys)\<close>: for each row, the value of \<open>e\<close> at the first row of
  its group (the rows with the same values in the \<open>keys\<close> columns) where \<open>p\<close> is true, and
  null when the group has no such row.
\<close>

definition pl_filter_first_over :: "expr \<Rightarrow> expr \<Rightarrow> string list \<Rightarrow> expr" where
  "pl_filter_first_over e p keys = (\<lambda>df r. do {
     _ \<leftarrow> each (map_of r) keys;
     let grp = filter (\<lambda>r'. map (map_of r') keys = map (map_of r) keys) df;
     vs \<leftarrow> each (e df) grp;
     ps \<leftarrow> each (p df) grp;
     _ \<leftarrow> each as_bool ps;
     Some (case filter (\<lambda>(v, b). b = BoolV True) (zip vs ps) of [] \<Rightarrow> Null | (v, _) # _ \<Rightarrow> v) })"

subsection \<open>Frames\<close>

definition columns :: "dataframe \<Rightarrow> string list" where
  "columns df = (case df of [] \<Rightarrow> [] | r # _ \<Rightarrow> map fst r)"

text \<open>\<open>df.with_columns\<close>: all expressions read the frame as it was before the call.\<close>

definition df_with_columns :: "(string \<times> expr) list \<Rightarrow> dataframe \<Rightarrow> dataframe option" where
  "df_with_columns es df =
     each (\<lambda>r. do { vs \<leftarrow> each (\<lambda>(c, e). e df r) es;
                     Some (AList.updates (map fst es) vs r) }) df"

text \<open>\<open>df.drop\<close>: a column that the frame does not have raises.\<close>

definition df_drop :: "string list \<Rightarrow> dataframe \<Rightarrow> dataframe option" where
  "df_drop cs df =
     each (\<lambda>r. if list_all (\<lambda>c. map_of r c \<noteq> None) cs
                then Some (filter (\<lambda>(k, v). k \<notin> set cs) r) else None) df"

text \<open>\<open>df.filter\<close>: keeps the rows where the predicate is true (not false, not null).\<close>

definition df_filter :: "expr \<Rightarrow> dataframe \<Rightarrow> dataframe option" where
  "df_filter p df = do {
     bs \<leftarrow> each (p df) df;
     _ \<leftarrow> each as_bool bs;
     Some (map fst (filter (\<lambda>(r, b). b = BoolV True) (zip df bs))) }"

definition df_drop_nulls :: "string \<Rightarrow> dataframe \<Rightarrow> dataframe option" where
  "df_drop_nulls c df = do {
     vs \<leftarrow> each (\<lambda>r. map_of r c) df;
     Some (map fst (filter (\<lambda>(r, v). v \<noteq> Null) (zip df vs))) }"

section \<open>Python floats\<close>

text \<open>
  A Python float is an IEEE 754 binary64 number. \<open>Finite m e\<close> stands for the number
  \<open>m * 2 ^ e\<close>; the two infinities and NaN are the one value \<open>Nonfinite\<close>: a subtraction or
  a multiplication with such an operand gives such a result, and \<open>int\<close> raises on all of
  them. The sign of a zero is not kept: nothing below depends on it.
\<close>

datatype float64 = Finite int int | Nonfinite

text \<open>\<open>m / 2 ^ k\<close> rounded to the nearest integer, a tie to the even one.\<close>

definition round_half_even :: "int \<Rightarrow> nat \<Rightarrow> int" where
  "round_half_even m k =
     (let q = m div 2 ^ k; r = m mod 2 ^ k
      in if 2 * r < 2 ^ k then q else if 2 ^ k < 2 * r then q + 1
         else if even q then q else q + 1)"

text \<open>
  The binary64 number nearest to \<open>m * 2 ^ e\<close>, a tie to the even significand: the
  significand keeps 53 bits (\<open>bitlen\<close> is the number of bits of a natural number), the
  last bit weighs at least \<open>2 ^ - 1074\<close> (gradual underflow), and a result of magnitude
  \<open>2 ^ 1024\<close> or more is an infinity.
\<close>

definition round_to_double :: "int \<Rightarrow> int \<Rightarrow> float64" where
  "round_to_double m e =
     (let k = nat (max (e + bitlen \<bar>m\<bar> - 53) (- 1074) - e);
          q = round_half_even m k
      in if q \<noteq> 0 \<and> 1024 < bitlen \<bar>q\<bar> + (e + int k) then Nonfinite
         else Finite q (e + int k))"

text \<open>
  The conversion of an \<open>int\<close> operand (where the model has \<open>Nonfinite\<close> Python raises
  \<open>OverflowError\<close> at once; the operation raises either way), the operators \<open>-\<close> and \<open>*\<close>,
  each rounding its exact result once, and \<open>int\<close>, which truncates towards zero and
  raises on an infinity or NaN.
\<close>

definition float_of_int :: "int \<Rightarrow> float64" where
  "float_of_int n = round_to_double n 0"

fun float_sub :: "float64 \<Rightarrow> float64 \<Rightarrow> float64" where
  "float_sub (Finite m1 e1) (Finite m2 e2) =
     (let e = min e1 e2 in round_to_double (m1 * 2 ^ nat (e1 - e) - m2 * 2 ^ nat (e2 - e)) e)"
| "float_sub _ _ = Nonfinite"

fun float_mul :: "float64 \<Rightarrow> float64 \<Rightarrow> float64" where
  "float_mul (Finite m1 e1) (Finite m2 e2) = round_to_double (m1 * m2) (e1 + e2)"
| "float_mul _ _ = Nonfinite"

fun py_int :: "float64 \<Rightarrow> int option" where
  "py_int (Finite m e) =
     Some (if 0 \<le> e then m * 2 ^ nat e else sgn m * (\<bar>m\<bar> div 2 ^ nat (- e)))"
| "py_int Nonfinite = None"

section \<open>Configuration\<close>

record DataConfig =
  use_augmentations :: bool
  include_ball_features :: bool
  include_goal_features :: bool
  use_macro_roles :: bool
  use_regression_imputing :: bool
  use_pca_on_roster_cols :: bool
  mask_non_possession_shooting_stats :: bool
  val_ratio :: float64

text \<open>
  The constants the source imports from \<open>soccerai.data.config\<close>, a module that is not part of
  the sources at hand: they are parameters of the model.
\<close>

record constants =
  SHOOTING_STATS :: "string list"
  X_GOAL_LEFT :: real
  X_GOAL_RIGHT :: real
  Y_GOAL :: real

section \<open>The Feature Deriver: \<open>_prepare_dataframe\<close>\<close>

definition cols_to_drop :: "string list" where
  "cols_to_drop =
     [''gameEventType'', ''index'', ''startTime'', ''endTime'', ''index_right'',
      ''gameId_right'', ''visibility'', ''videoUrl'', ''homeTeamName'', ''awayTeamName'',
      ''Age Info'', ''Full Name'', ''Height'', ''birth_date'', ''teamName'', ''playerId'']"

text \<open>Heading and speed to velocity components (source lines 123 to 133).\<close>

definition velocity_components :: "dataframe \<Rightarrow> dataframe option" where
  "velocity_components df0 = do {
     df \<leftarrow> df_with_columns
             [(''cos'', pl_cos (pl_radians (pl_col ''direction''))),
              (''sin'', pl_sin (pl_radians (pl_col ''direction'')))] df0;
     df \<leftarrow> df_with_columns
             [(''vx'', pl_mul (pl_col ''velocity'') (pl_col ''cos'')),
              (''vy'', pl_mul (pl_col ''velocity'') (pl_col ''sin''))] df;
     df_drop [''velocity'', ''direction''] df }"

text \<open>The ball columns (source lines 135 to 145).\<close>

definition ball_source_cols :: "string list" where
  "ball_source_cols = [''x'', ''y'', ''z'', ''cos'', ''sin'', ''vx'', ''vy'']"

definition ball_expr :: "string \<Rightarrow> expr" where
  "ball_expr c =
     pl_filter_first_over (pl_col c) (pl_is_null (pl_col ''team''))
       [''gameEventId'', ''possessionEventId'']"

definition ball_features :: "dataframe \<Rightarrow> dataframe option" where
  "ball_features df0 = do {
     df \<leftarrow> df_with_columns (map (\<lambda>c. (c @ ''_ball'', ball_expr c)) ball_source_cols) df0;
     df_drop [''z''] df }"

text \<open>The row filters (source lines 147 to 151).\<close>

definition player_rows :: "dataframe \<Rightarrow> dataframe option" where
  "player_rows df0 = do {
     df \<leftarrow> df_filter (pl_is_not_null (pl_col ''team'')) df0;
     df \<leftarrow> df_filter (pl_ne (pl_col ''possessionEventType'') (pl_lit (StrV ''SH''))) df;
     df_filter (pl_is_not_null (pl_col ''playerName'')) df }"

text \<open>The parsed and derived columns (source lines 153 to 181).\<close>

definition frame_seconds :: "casts \<Rightarrow> expr" where
  "frame_seconds lib =
     lift2 add_u16
       (lift2 mul_u16 (lift1 (cast_uint16 lib) (pl_str_split_get CHR '':'' 0 (pl_col ''frameTime'')))
                      (pl_lit (IntV 60)))
       (lift1 (cast_uint16 lib) (pl_str_split_get CHR '':'' 1 (pl_col ''frameTime'')))"

definition is_ball_carrier :: expr where
  "is_ball_carrier =
     pl_when (pl_eq (pl_col ''playerName'') (pl_col ''playerName_right''))
       (pl_lit (IntV 1)) (pl_lit (IntV 0))"

definition age_band :: expr where
  "age_band =
     pl_when (pl_lt (pl_col ''age'') (pl_lit (IntV 20))) (pl_lit (StrV ''Under 20''))
       (pl_when (pl_lt (pl_col ''age'') (pl_lit (IntV 29))) (pl_lit (StrV ''20-28''))
         (pl_when (pl_lt (pl_col ''age'') (pl_lit (IntV 35))) (pl_lit (StrV ''29-35''))
           (pl_lit (StrV ''35+''))))"

definition derived_columns :: "casts \<Rightarrow> dataframe \<Rightarrow> dataframe option" where
  "derived_columns lib df0 = do {
     df \<leftarrow> df_with_columns
             [(''frameTime'', frame_seconds lib),
              (''is_ball_carrier'', is_ball_carrier),
              (''Weight'', lift1 (cast_float64 lib) (pl_str_replace ''kg'' [] (pl_col ''Weight''))),
              (''height_cm'', lift1 (cast_float64 lib) (pl_col ''height_cm'')),
              (''age'', age_band)] df0;
     df_drop [''playerName'', ''playerName_right''] df }"

text \<open>The macro roles (source lines 183 to 197).\<close>

definition macro_role :: expr where
  "macro_role =
     pl_when (pl_is_in (pl_col ''playerRole'') [''DM'', ''CM'', ''AM'', ''LM'', ''RM'', ''MCB''])
       (pl_lit (StrV ''M''))
       (pl_when (pl_is_in (pl_col ''playerRole'') [''RCB'', ''LCB'', ''LB'', ''RB'', ''LWB'', ''RWB''])
          (pl_lit (StrV ''D''))
          (pl_when (pl_is_in (pl_col ''playerRole'') [''RW'', ''CF'', ''LW''])
             (pl_lit (StrV ''F''))
             (pl_col ''playerRole'')))"

text \<open>The possession attribution (source lines 199 to 213).\<close>

definition possession_team_tmp :: expr where
  "possession_team_tmp =
     pl_filter_first_over (pl_col ''team'') (pl_eq (pl_col ''is_ball_carrier'') (pl_lit (IntV 1)))
       [''gameEventId'', ''possessionEventId'']"

definition is_possession_team :: expr where
  "is_possession_team = lift1 cast_int8 (pl_eq (pl_col ''team'') (pl_col ''possession_team_tmp''))"

definition possession_attribution :: "dataframe \<Rightarrow> dataframe option" where
  "possession_attribution df0 = do {
     df \<leftarrow> df_with_columns [(''possession_team_tmp'', possession_team_tmp)] df0;
     df \<leftarrow> df_with_columns [(''is_possession_team'', is_possession_team)] df;
     df \<leftarrow> df_drop [''possession_team_tmp''] df;
     df_drop_nulls ''is_possession_team'' df }"

text \<open>The attack direction and the goal coordinates (source lines 215 to 232).\<close>

definition is_home_team :: expr where
  "is_home_team = pl_eq (pl_col ''team'') (pl_lit (StrV ''home''))"

definition is_second_half :: expr where
  "is_second_half = pl_gt (pl_col ''frameTime'') (pl_col ''startPeriod2'')"

text \<open>
  The four conjunctions of the source, in its order, for the values \<open>h\<close> of
  \<open>is_home_team\<close>, \<open>l\<close> of \<open>homeTeamStartLeft\<close> and \<open>s\<close> of \<open>is_second_half\<close>.
\<close>

definition attack_right_cases :: "cell \<Rightarrow> cell \<Rightarrow> cell \<Rightarrow> (cell \<times> cell \<times> cell \<times> cell) option" where
  "attack_right_cases h l s = do {
     nh \<leftarrow> cell_not h; nl \<leftarrow> cell_not l; ns \<leftarrow> cell_not s;
     hl \<leftarrow> cell_and h l; c1 \<leftarrow> cell_and hl ns;
     hnl \<leftarrow> cell_and h nl; c2 \<leftarrow> cell_and hnl s;
     nhnl \<leftarrow> cell_and nh nl; c3 \<leftarrow> cell_and nhnl ns;
     nhl \<leftarrow> cell_and nh l; c4 \<leftarrow> cell_and nhl s;
     Some (c1, c2, c3, c4) }"

definition goal_right :: "cell \<Rightarrow> cell \<Rightarrow> cell \<Rightarrow> cell option" where
  "goal_right h l s = do {
     (c1, c2, c3, c4) \<leftarrow> attack_right_cases h l s;
     c12 \<leftarrow> cell_or c1 c2; c123 \<leftarrow> cell_or c12 c3; cell_or c123 c4 }"

definition is_goal_right :: expr where
  "is_goal_right = (\<lambda>df r. do {
     h \<leftarrow> is_home_team df r;
     s \<leftarrow> is_second_half df r;
     l \<leftarrow> pl_col ''homeTeamStartLeft'' df r;
     goal_right h l s })"

definition goal_x :: "constants \<Rightarrow> cell \<Rightarrow> cell option" where
  "goal_x K g = cell_when g (FloatV (X_GOAL_RIGHT K)) (FloatV (X_GOAL_LEFT K))"

definition goal_assignment :: "constants \<Rightarrow> dataframe \<Rightarrow> dataframe option" where
  "goal_assignment K df =
     df_with_columns
       [(''x_goal'', lift1 (goal_x K) is_goal_right),
        (''y_goal'', pl_lit (FloatV (Y_GOAL K)))] df"

definition prepare_dataframe :: "DataConfig \<Rightarrow> constants \<Rightarrow> casts \<Rightarrow> dataframe \<Rightarrow> dataframe option" where
  "prepare_dataframe cfg K lib df0 = do {
     df \<leftarrow> df_drop cols_to_drop df0;
     df \<leftarrow> velocity_components df;
     df \<leftarrow> (if include_ball_features cfg then ball_features df else Some df);
     df \<leftarrow> player_rows df;
     df \<leftarrow> derived_columns lib df;
     df \<leftarrow> (if use_macro_roles cfg then df_with_columns [(''playerRole'', macro_role)] df else Some df);
     df \<leftarrow> possession_attribution df;
     df \<leftarrow> goal_assignment K df;
     df_drop [''team'', ''homeTeamStartLeft'', ''startPeriod2''] df }"

section \<open>The Phase-Aware Splitter: \<open>_split_by_worldcup_phase\<close>\<close>

text \<open>
  Match identifiers are integers. The \<open>gameId\<close> of a row: \<open>Some None\<close> for a null, \<open>None\<close>
  (outside the model) for a missing column or a cell that is not an integer.
\<close>

definition game_id :: "row \<Rightarrow> int option option" where
  "game_id r =
     (case map_of r ''gameId'' of
        Some (IntV i) \<Rightarrow> Some (Some i)
      | Some Null \<Rightarrow> Some None
      | _ \<Rightarrow> None)"

text \<open>
  The number of training matches, \<open>int((1.0 - val_ratio) * n_games)\<close> (source line 92),
  in binary64 arithmetic; \<open>None\<close> when \<open>int\<close> raises.
\<close>

definition n_train_games :: "float64 \<Rightarrow> int \<Rightarrow> int option" where
  "n_train_games ratio n_games =
     py_int (float_mul (float_sub (Finite 1 0) ratio) (float_of_int n_games))"

text \<open>
  \<open>DataFrame.slice(offset, length)\<close>: a negative offset counts from the end of the frame; a
  negative length stands for \<open>height - offset + length\<close> and raises when that is negative
  too; the window is clipped to the frame.
\<close>

definition df_slice :: "'a list \<Rightarrow> int \<Rightarrow> int \<Rightarrow> 'a list option" where
  "df_slice xs offset len =
     (let h = int (length xs);
          len' = (if len < 0 then h - offset + len else len)
      in if len' < 0 then None
         else (let start0 = (if offset < 0 then offset + h else offset);
                   start = max 0 (min start0 h);
                   stop = max 0 (min (start0 + len') h)
               in Some (take (nat (stop - start)) (drop (nat start) xs))))"

text \<open>
  \<open>df.join(ids, on="gameId", how="semi")\<close>: the rows of \<open>df\<close> whose \<open>gameId\<close> is among
  \<open>ids\<close>; a null key matches nothing.
\<close>

definition semi_join :: "dataframe \<Rightarrow> int option list \<Rightarrow> dataframe" where
  "semi_join df ids =
     filter (\<lambda>r. case game_id r of Some (Some i) \<Rightarrow> Some i \<in> set ids | _ \<Rightarrow> False) df"

definition split_by_worldcup_phase :: "dataframe \<Rightarrow> float64 \<Rightarrow> (dataframe \<times> dataframe) option" where
  "split_by_worldcup_phase df ratio = do {
     ids \<leftarrow> each game_id df;
     let game_ids_df = sort (remdups ids);
     let n_games = int (length game_ids_df);
     n_train \<leftarrow> n_train_games ratio n_games;
     train_game_ids \<leftarrow> df_slice game_ids_df 0 n_train;
     val_game_ids \<leftarrow> df_slice game_ids_df n_train n_games;
     Some (semi_join df train_game_ids, semi_join df val_game_ids) }"



section \<open>The Preprocessing Pipeline Builder: \<open>_create_preprocessor\<close>\<close>

text \<open>
  The source assembles a pipeline of library estimators; the model keeps its structure:
  which estimators, with which parameters, on which columns.
\<close>

datatype handle_unknown = Unknown_error | Unknown_ignore

datatype drop_policy = Drop_none | Drop_if_binary

datatype estimator =
    SimpleImputer_median
  | SimpleImputer_constant string
  | IterativeImputer_extra_trees
  | KNNImputer_distance
  | QuantileTransformer_normal
  | PCA_on "string list"
  | OneHotEncoder handle_unknown drop_policy
  | PlayerLocationTransformer
  | GoalLocationTransformer
  | BallLocationTransformer
  | PowerTransformer_on "string list"

text \<open>A branch of the column transformer: its name, its steps and its columns.\<close>

type_synonym transformer = "string \<times> estimator list \<times> string list"

datatype mask_columns = Mask_listed "string list" | Mask_pca_prefixed

record preprocessor_spec =
  transformers :: "transformer list"
  shooting_stats_mask :: "mask_columns option"

definition cat_cols :: "string list" where
  "cat_cols = [''possessionEventType'', ''playerRole'', ''is_possession_team'', ''is_ball_carrier'', ''age'']"

definition pos_cols :: "string list" where
  "pos_cols = [''x'', ''y'']"

definition goal_cols :: "string list" where
  "goal_cols = [''x_goal'', ''y_goal'']"

definition angle_cols :: "string list" where
  "angle_cols = [''cos'', ''sin'']"

definition velocity_cols :: "string list" where
  "velocity_cols = [''vx'', ''vy'']"

definition ball_cols :: "string list" where
  "ball_cols =
     [''x_ball'', ''y_ball'', ''z_ball'', ''height_cm'', ''cos_ball'', ''sin_ball'', ''vx_ball'', ''vy_ball'']"

definition exclude_cols :: "DataConfig \<Rightarrow> string list" where
  "exclude_cols cfg =
     cat_cols @ pos_cols @ goal_cols @ angle_cols @ velocity_cols
     @ [''gameEventId'', ''possessionEventId'', ''label'', ''gameId'', ''chain_id'', ''jerseyNum'']
     @ (if include_ball_features cfg then ball_cols else [])"

definition num_cols :: "DataConfig \<Rightarrow> dataframe \<Rightarrow> string list" where
  "num_cols cfg df = filter (\<lambda>c. c \<notin> set (exclude_cols cfg)) (columns df)"

definition num_pipe :: "DataConfig \<Rightarrow> constants \<Rightarrow> estimator list" where
  "num_pipe cfg K =
     [if use_regression_imputing cfg then IterativeImputer_extra_trees else SimpleImputer_median,
      QuantileTransformer_normal]
     @ (if use_pca_on_roster_cols cfg then [PCA_on (SHOOTING_STATS K)] else [])"

definition cat_pipe :: "estimator list" where
  "cat_pipe = [SimpleImputer_constant ''unknown'', OneHotEncoder Unknown_ignore Drop_if_binary]"

definition player_pipe :: "estimator list" where
  "player_pipe = [KNNImputer_distance, PlayerLocationTransformer, PowerTransformer_on [''vx'', ''vy'']]"

definition ball_loc_pipe :: "estimator list" where
  "ball_loc_pipe = [SimpleImputer_median, BallLocationTransformer, PowerTransformer_on [''dvx'', ''dvy'']]"

definition create_preprocessor :: "DataConfig \<Rightarrow> constants \<Rightarrow> dataframe \<Rightarrow> preprocessor_spec" where
  "create_preprocessor cfg K df =
     \<lparr>transformers =
        [(''num'', num_pipe cfg K, num_cols cfg df),
         (''cat'', cat_pipe, cat_cols),
         (''player_loc'', player_pipe, pos_cols @ angle_cols @ velocity_cols @ goal_cols)]
        @ (if include_goal_features cfg
           then [(''goal_loc'', [GoalLocationTransformer], pos_cols @ goal_cols)] else [])
        @ (if include_ball_features cfg
           then [(''ball_pipe'', ball_loc_pipe, pos_cols @ angle_cols @ velocity_cols @ ball_cols)]
           else []),
      shooting_stats_mask =
        (if mask_non_possession_shooting_stats cfg
         then Some (if use_pca_on_roster_cols cfg then Mask_pca_prefixed
                    else Mask_listed (SHOOTING_STATS K @ [''is_possession_team_1'']))
         else None)\<rparr>"

section \<open>The Dataset Orchestrator: \<open>process\<close>\<close>

text \<open>
  The preprocessor is a library object that \<open>fit_transform\<close> mutates: it is modelled by its
  specification, the state it has learned (none before it is fitted) and the log of the
  calls it has received. What fitting learns, what applying a learned state computes and
  the graph converter are collaborators outside the sources: parameters, each of which
  may raise.
\<close>

datatype call = Fit_transform dataframe | Transform dataframe

record 's preprocessor =
  spec :: preprocessor_spec
  fitted :: "'s option"
  calls :: "call list"

record ('s, 'g) collaborators =
  learn :: "preprocessor_spec \<Rightarrow> dataframe \<Rightarrow> 's option"
  apply_learned :: "preprocessor_spec \<Rightarrow> 's \<Rightarrow> dataframe \<Rightarrow> dataframe option"
  convert_dataframe_to_data_list :: "dataframe \<Rightarrow> ('g list \<times> string list) option"

definition fit_transform ::
  "('s, 'g) collaborators \<Rightarrow> 's preprocessor \<Rightarrow> dataframe \<Rightarrow> (dataframe \<times> 's preprocessor) option" where
  "fit_transform co p X = do {
     s \<leftarrow> learn co (spec p) X;
     Y \<leftarrow> apply_learned co (spec p) s X;
     Some (Y, p\<lparr>fitted := Some s, calls := calls p @ [Fit_transform X]\<rparr>) }"

definition transform ::
  "('s, 'g) collaborators \<Rightarrow> 's preprocessor \<Rightarrow> dataframe \<Rightarrow> (dataframe \<times> 's preprocessor) option" where
  "transform co p X = do {
     s \<leftarrow> fitted p;
     Y \<leftarrow> apply_learned co (spec p) s X;
     Some (Y, p\<lparr>calls := calls p @ [Transform X]\<rparr>) }"

text \<open>What a build leaves behind: the two saved collections, the manifest, and the preprocessor.\<close>

record ('s, 'g) build =
  train_data :: "'g list"
  val_data :: "'g list"
  feature_names :: "string list"
  preprocessor :: "'s preprocessor"

definition process ::
  "DataConfig \<Rightarrow> constants \<Rightarrow> casts \<Rightarrow> ('s, 'g) collaborators \<Rightarrow> dataframe \<Rightarrow> ('s, 'g) build option" where
  "process cfg K lib co raw = do {
     df \<leftarrow> prepare_dataframe cfg K lib raw;
     (train_df, val_df) \<leftarrow> split_by_worldcup_phase df (val_ratio cfg);
     let p0 = \<lparr>spec = create_preprocessor cfg K train_df, fitted = None, calls = []\<rparr>;
     (train_transformed, p1) \<leftarrow> fit_transform co p0 train_df;
     (val_transformed, p2) \<leftarrow> transform co p1 val_df;
     (train_data_list, names) \<leftarrow> convert_dataframe_to_data_list co train_transformed;
     (val_data_list, _) \<leftarrow> convert_dataframe_to_data_list co val_transformed;
     Some \<lparr>train_data = train_data_list, val_data = val_data_list, feature_names = names,
           preprocessor = p2\<rparr> }"

section \<open>Vocabulary of the statements and example data\<close>

definition keeps :: "string \<Rightarrow> dataframe \<Rightarrow> dataframe \<Rightarrow> bool" where
  "keeps c df out \<longleftrightarrow> (\<forall>r'\<in>set out. \<exists>r\<in>set df. map_of r' c = map_of r c)"

definition group_of :: "dataframe \<Rightarrow> row \<Rightarrow> row list" where
  "group_of df r =
     filter (\<lambda>r'. map (map_of r') [''gameEventId'', ''possessionEventId'']
                 = map (map_of r) [''gameEventId'', ''possessionEventId'']) df"

definition ball_rows :: "dataframe \<Rightarrow> row \<Rightarrow> row list" where
  "ball_rows df r = filter (\<lambda>r'. map_of r' ''team'' = Some Null) (group_of df r)"


definition digit_of :: "char \<Rightarrow> nat option" where
  "digit_of c = (let n = (of_char c :: nat) in if 48 \<le> n \<and> n \<le> 57 then Some (n - 48) else None)"

definition decimal :: "string \<Rightarrow> nat option" where
  "decimal s =
     (if s = [] then None
      else fold (\<lambda>c acc. case (acc, digit_of c) of (Some a, Some d) \<Rightarrow> Some (10 * a + d) | _ \<Rightarrow> None)
             s (Some 0))"

definition example_casts :: casts where
  "example_casts = \<lparr>str_to_nat = decimal, str_to_float = (\<lambda>s. map_option of_nat (decimal s))\<rparr>"

definition example_constants :: constants where
  "example_constants = \<lparr>SHOOTING_STATS = [''shots''], X_GOAL_LEFT = - 52.5, X_GOAL_RIGHT = 52.5, Y_GOAL = 0\<rparr>"

definition ann :: row where
  "ann = [(''playerName'', StrV ''Ann''), (''playerName_right'', StrV ''Ann''),
          (''frameTime'', StrV ''12:34''), (''Weight'', StrV ''75kg''), (''height_cm'', IntV 180),
          (''age'', IntV 19)]"

definition bob :: row where
  "bob = [(''playerName'', StrV ''Bob''), (''playerName_right'', Null),
          (''frameTime'', StrV ''00:07''), (''Weight'', Null), (''height_cm'', Null),
          (''age'', IntV 29)]"

definition cy :: row where
  "cy = [(''playerName'', StrV ''Cy''), (''playerName_right'', StrV ''Ann''),
         (''frameTime'', Null), (''Weight'', StrV ''80''), (''height_cm'', FloatV 175),
         (''age'', IntV 40)]"

definition example_players :: dataframe where
  "example_players = [ann, bob, cy]"

text \<open>
  Rows for the eight combinations of side, half and \<open>homeTeamStartLeft\<close>; the second half
  starts at 3000.
\<close>

definition side_row :: "string \<Rightarrow> int \<Rightarrow> bool \<Rightarrow> row" where
  "side_row t ft l =
     [(''team'', StrV t), (''frameTime'', IntV ft), (''startPeriod2'', FloatV 3000),
      (''homeTeamStartLeft'', BoolV l)]"

definition example_sides :: dataframe where
  "example_sides =
     [side_row ''home'' 754 True, side_row ''away'' 3100 True, side_row ''away'' 754 True,
      side_row ''home'' 3100 True, side_row ''home'' 754 False, side_row ''home'' 3100 False,
      side_row ''away'' 754 False, side_row ''away'' 3100 False]"

text \<open>
  The order of two finite floats, and the real number a finite float stands for.
\<close>

fun float_le :: "float64 \<Rightarrow> float64 \<Rightarrow> bool" where
  "float_le (Finite m1 e1) (Finite m2 e2) =
     (let e = min e1 e2 in m1 * 2 ^ nat (e1 - e) \<le> m2 * 2 ^ nat (e2 - e))"
| "float_le _ _ = False"

definition float_val :: "int \<Rightarrow> int \<Rightarrow> real" where
  "float_val m e = (if 0 \<le> e then of_int m * 2 ^ nat e else of_int m / 2 ^ nat (- e))"

text \<open>The floats that the literals \<open>0.8\<close>, \<open>0.1\<close> and \<open>1e-17\<close> denote.\<close>

definition float_0_8 :: float64 where
  "float_0_8 = Finite 3602879701896397 (- 52)"

definition float_0_1 :: float64 where
  "float_0_1 = Finite 3602879701896397 (- 55)"

definition float_1e_17 :: float64 where
  "float_1e_17 = Finite 6490371073168535 (- 109)"

definition five_matches :: dataframe where
  "five_matches =
     [[(''gameId'', IntV 3)], [(''gameId'', IntV 1)], [(''gameId'', IntV 5)],
      [(''gameId'', IntV 2)], [(''gameId'', IntV 4)], [(''gameId'', IntV 1)]]"

definition match_ids :: "dataframe \<Rightarrow> int set" where
  "match_ids df = {i. \<exists>r\<in>set df. game_id r = Some (Some i)}"

definition two_matches :: dataframe where
  "two_matches =
     [[(''gameId'', IntV 1), (''jerseyNum'', IntV 10)],
      [(''gameId'', IntV 2), (''jerseyNum'', IntV 10)],
      [(''gameId'', IntV 1), (''jerseyNum'', IntV 7)],
      [(''gameId'', IntV 2), (''jerseyNum'', IntV 9)]]"

definition one_match :: dataframe where
  "one_match = [[(''gameId'', IntV 7), (''jerseyNum'', IntV 10)], [(''gameId'', IntV 7), (''jerseyNum'', IntV 4)]]"

text \<open>
  Modelled from the spec: what the two estimators of the categorical branch compute. They
  are library estimators, absent from the sources, which only choose their parameters
  (\<open>cat_pipe\<close>). The specification describes them as constant-fill imputation with the
  sentinel, then one-hot encoding with one indicator column per category seen when
  fitting, binary categories collapsed to a single indicator column; with
  \<open>handle_unknown="error"\<close> a value not seen when fitting raises. Categories are kept in
  the order of first appearance.
\<close>

definition impute_constant :: "string \<Rightarrow> cell \<Rightarrow> cell" where
  "impute_constant fill v = (if v = Null then StrV fill else v)"

definition kept_categories :: "drop_policy \<Rightarrow> cell list \<Rightarrow> cell list" where
  "kept_categories dp cats =
     (case dp of Drop_none \<Rightarrow> cats | Drop_if_binary \<Rightarrow> if length cats = 2 then tl cats else cats)"

definition onehot :: "handle_unknown \<Rightarrow> drop_policy \<Rightarrow> cell list \<Rightarrow> cell \<Rightarrow> int list option" where
  "onehot hu dp cats v =
     (if v \<notin> set cats \<and> hu = Unknown_error then None
      else Some (map (\<lambda>c. if v = c then 1 else 0) (kept_categories dp cats)))"

definition cat_learn :: "estimator list \<Rightarrow> string list \<Rightarrow> dataframe \<Rightarrow> cell list list option" where
  "cat_learn steps cols train =
     (case steps of
        [SimpleImputer_constant fill, OneHotEncoder hu dp] \<Rightarrow>
          map_option (\<lambda>X. map (\<lambda>j. remdups (map (\<lambda>xs. impute_constant fill (xs ! j)) X)) [0..<length cols])
            (each (\<lambda>r. each (map_of r) cols) train)
      | _ \<Rightarrow> None)"

definition cat_apply :: "estimator list \<Rightarrow> string list \<Rightarrow> cell list list \<Rightarrow> row \<Rightarrow> int list list option" where
  "cat_apply steps cols cats r =
     (case steps of
        [SimpleImputer_constant fill, OneHotEncoder hu dp] \<Rightarrow>
          do { xs \<leftarrow> each (map_of r) cols;
               each (\<lambda>(cs, v). onehot hu dp cs (impute_constant fill v)) (zip cats xs) }
      | _ \<Rightarrow> None)"

definition example_train_cats :: dataframe where
  "example_train_cats =
     [[(''possessionEventType'', StrV ''PA''), (''playerRole'', StrV ''M''), (''is_possession_team'', IntV 1),
       (''is_ball_carrier'', IntV 1), (''age'', StrV ''20-28'')],
      [(''possessionEventType'', StrV ''PA''), (''playerRole'', StrV ''D''), (''is_possession_team'', IntV 0),
       (''is_ball_carrier'', IntV 0), (''age'', StrV ''29-35'')],
      [(''possessionEventType'', StrV ''CR''), (''playerRole'', StrV ''F''), (''is_possession_team'', IntV 0),
       (''is_ball_carrier'', IntV 0), (''age'', StrV ''29-35'')]]"

definition example_val_row :: row where
  "example_val_row =
     [(''possessionEventType'', StrV ''PA''), (''playerRole'', StrV ''GK''), (''is_possession_team'', IntV 1),
      (''is_ball_carrier'', IntV 0), (''age'', StrV ''35+'')]"

definition example_cfg :: DataConfig where
  "example_cfg =
     \<lparr>use_augmentations = False, include_ball_features = True, include_goal_features = True,
      use_macro_roles = True, use_regression_imputing = False, use_pca_on_roster_cols = False,
      mask_non_possession_shooting_stats = False, val_ratio = Finite 1 (- 1)\<rparr>"


definition raw_row :: "int \<Rightarrow> int \<Rightarrow> cell \<Rightarrow> cell \<Rightarrow> cell \<Rightarrow> real \<Rightarrow> real \<Rightarrow> real \<Rightarrow> row" where
  "raw_row game event side name carrier px py pz =
     [(''gameId'', IntV game), (''gameEventId'', IntV event), (''possessionEventId'', IntV 100),
      (''gameEventType'', StrV ''OTB''), (''index'', IntV 0), (''startTime'', FloatV 754),
      (''endTime'', FloatV 755), (''index_right'', IntV 0), (''gameId_right'', IntV game),
      (''visibility'', StrV ''VISIBLE''), (''videoUrl'', Null), (''homeTeamName'', StrV ''A''),
      (''awayTeamName'', StrV ''B''), (''Age Info'', Null), (''Full Name'', name),
      (''Height'', Null), (''birth_date'', Null), (''teamName'', Null), (''playerId'', Null),
      (''team'', side), (''playerName'', name), (''playerName_right'', carrier),
      (''possessionEventType'', StrV ''PA''), (''playerRole'', StrV ''CM''),
      (''frameTime'', StrV ''12:34''), (''direction'', FloatV 0), (''velocity'', FloatV 2),
      (''x'', FloatV px), (''y'', FloatV py), (''z'', FloatV pz),
      (''Weight'', StrV ''75kg''), (''height_cm'', IntV 180), (''age'', IntV 29),
      (''homeTeamStartLeft'', BoolV True), (''startPeriod2'', FloatV 3000), (''label'', IntV 1)]"

definition example_raw :: dataframe where
  "example_raw =
     [raw_row 1 10 Null Null (StrV ''Ann'') 50 30 1,
      raw_row 1 10 (StrV ''home'') (StrV ''Ann'') (StrV ''Ann'') 40 20 0,
      raw_row 1 10 (StrV ''away'') (StrV ''Bob'') (StrV ''Ann'') 60 25 0,
      raw_row 2 20 Null Null (StrV ''Cy'') 10 5 2,
      raw_row 2 20 (StrV ''away'') (StrV ''Cy'') (StrV ''Cy'') 12 6 0]"

definition event_row :: "int \<Rightarrow> int \<Rightarrow> cell \<Rightarrow> cell \<Rightarrow> cell \<Rightarrow> real \<Rightarrow> real \<Rightarrow> real \<Rightarrow> row" where
  "event_row game event side name carrier px py pz =
     [(''gameId'', IntV game), (''gameEventId'', IntV event), (''possessionEventId'', IntV 100),
      (''team'', side), (''playerName'', name), (''playerName_right'', carrier),
      (''possessionEventType'', StrV ''PA''), (''playerRole'', StrV ''CM''),
      (''frameTime'', StrV ''12:34''), (''direction'', FloatV 0), (''velocity'', FloatV 2),
      (''x'', FloatV px), (''y'', FloatV py), (''z'', FloatV pz),
      (''Weight'', StrV ''75kg''), (''height_cm'', IntV 180), (''age'', IntV 29),
      (''homeTeamStartLeft'', BoolV True), (''startPeriod2'', FloatV 3000), (''label'', IntV 1)]"

definition kin_row :: "int \<Rightarrow> int \<Rightarrow> cell \<Rightarrow> cell \<Rightarrow> cell \<Rightarrow> real \<Rightarrow> real \<Rightarrow> real \<Rightarrow> row" where
  "kin_row game event side name carrier px py pz =
     [(''gameId'', IntV game), (''gameEventId'', IntV event), (''possessionEventId'', IntV 100),
      (''team'', side), (''playerName'', name), (''playerName_right'', carrier),
      (''possessionEventType'', StrV ''PA''), (''playerRole'', StrV ''CM''),
      (''frameTime'', StrV ''12:34''),
      (''x'', FloatV px), (''y'', FloatV py), (''z'', FloatV pz),
      (''Weight'', StrV ''75kg''), (''height_cm'', IntV 180), (''age'', IntV 29),
      (''homeTeamStartLeft'', BoolV True), (''startPeriod2'', FloatV 3000), (''label'', IntV 1),
      (''cos'', FloatV 1), (''sin'', FloatV 0), (''vx'', FloatV 2), (''vy'', FloatV 0)]"

definition example_kin :: dataframe where
  "example_kin = [kin_row 1 10 Null Null (StrV ''Ann'') 50 30 1,
      kin_row 1 10 (StrV ''home'') (StrV ''Ann'') (StrV ''Ann'') 40 20 0,
      kin_row 1 10 (StrV ''away'') (StrV ''Bob'') (StrV ''Ann'') 60 25 0,
      kin_row 2 20 Null Null (StrV ''Cy'') 10 5 2,
      kin_row 2 20 (StrV ''away'') (StrV ''Cy'') (StrV ''Cy'') 12 6 0]"

definition prepared_row :: "int \<Rightarrow> int \<Rightarrow> real \<Rightarrow> real \<Rightarrow> real \<Rightarrow> real \<Rightarrow> real \<Rightarrow> int \<Rightarrow> int \<Rightarrow> real \<Rightarrow> row" where
  "prepared_row game event px py bx by bz carrier poss gx =
     [(''gameId'', IntV game), (''gameEventId'', IntV event), (''possessionEventId'', IntV 100),
      (''possessionEventType'', StrV ''PA''), (''playerRole'', StrV ''M''),
      (''frameTime'', IntV 754), (''x'', FloatV px), (''y'', FloatV py),
      (''Weight'', FloatV 75), (''height_cm'', FloatV 180), (''age'', StrV ''29-35''),
      (''label'', IntV 1), (''cos'', FloatV 1), (''sin'', FloatV 0), (''vx'', FloatV 2),
      (''vy'', FloatV 0), (''x_ball'', FloatV bx), (''y_ball'', FloatV by), (''z_ball'', FloatV bz),
      (''cos_ball'', FloatV 1), (''sin_ball'', FloatV 0), (''vx_ball'', FloatV 2),
      (''vy_ball'', FloatV 0), (''is_ball_carrier'', IntV carrier),
      (''is_possession_team'', IntV poss), (''x_goal'', FloatV gx), (''y_goal'', FloatV 0)]"

definition example_prepared :: dataframe where
  "example_prepared =
     [prepared_row 1 10 40 20 50 30 1 1 1 52.5,
      prepared_row 1 10 60 25 50 30 1 0 0 (- 52.5),
      prepared_row 2 20 12 6 10 5 2 1 1 (- 52.5)]"

definition player_row :: "int \<Rightarrow> int \<Rightarrow> string \<Rightarrow> string \<Rightarrow> string \<Rightarrow> real \<Rightarrow> real \<Rightarrow> real \<Rightarrow> real \<Rightarrow> real \<Rightarrow> row" where
  "player_row game event side name carrier px py bx by bz =
     [(''gameId'', IntV game), (''gameEventId'', IntV event), (''possessionEventId'', IntV 100),
      (''team'', StrV side), (''playerName'', StrV name), (''playerName_right'', StrV carrier),
      (''possessionEventType'', StrV ''PA''), (''playerRole'', StrV ''CM''),
      (''frameTime'', StrV ''12:34''),
      (''x'', FloatV px), (''y'', FloatV py),
      (''Weight'', StrV ''75kg''), (''height_cm'', IntV 180), (''age'', IntV 29),
      (''homeTeamStartLeft'', BoolV True), (''startPeriod2'', FloatV 3000), (''label'', IntV 1),
      (''cos'', FloatV 1), (''sin'', FloatV 0), (''vx'', FloatV 2), (''vy'', FloatV 0),
      (''x_ball'', FloatV bx), (''y_ball'', FloatV by), (''z_ball'', FloatV bz),
      (''cos_ball'', FloatV 1), (''sin_ball'', FloatV 0), (''vx_ball'', FloatV 2),
      (''vy_ball'', FloatV 0)]"

definition derived_row :: "int \<Rightarrow> int \<Rightarrow> string \<Rightarrow> int \<Rightarrow> real \<Rightarrow> real \<Rightarrow> real \<Rightarrow> real \<Rightarrow> real \<Rightarrow> row" where
  "derived_row game event side carrier px py bx by bz =
     [(''gameId'', IntV game), (''gameEventId'', IntV event), (''possessionEventId'', IntV 100),
      (''team'', StrV side),
      (''possessionEventType'', StrV ''PA''), (''playerRole'', StrV ''CM''),
      (''frameTime'', IntV 754),
      (''x'', FloatV px), (''y'', FloatV py),
      (''Weight'', FloatV 75), (''height_cm'', FloatV 180), (''age'', StrV ''29-35''),
      (''homeTeamStartLeft'', BoolV True), (''startPeriod2'', FloatV 3000), (''label'', IntV 1),
      (''cos'', FloatV 1), (''sin'', FloatV 0), (''vx'', FloatV 2), (''vy'', FloatV 0),
      (''x_ball'', FloatV bx), (''y_ball'', FloatV by), (''z_ball'', FloatV bz),
      (''cos_ball'', FloatV 1), (''sin_ball'', FloatV 0), (''vx_ball'', FloatV 2),
      (''vy_ball'', FloatV 0), (''is_ball_carrier'', IntV carrier)]"


text \<open>
  Example collaborators: fitting remembers the frame it was given, applying a learned
  state returns the frame unchanged, and the converter returns the rows and their column
  names.
\<close>

definition example_co :: "(dataframe, row) collaborators" where
  "example_co =
     \<lparr>learn = (\<lambda>sp X. Some X),
      apply_learned = (\<lambda>sp s X. Some X),
      convert_dataframe_to_data_list = (\<lambda>X. Some (X, columns X))\<rparr>"

section \<open>Proofs\<close>

lemma each_Some_iff: "each f xs = Some ys \<longleftrightarrow> list_all2 (\<lambda>x y. f x = Some y) xs ys"
proof (induction xs arbitrary: ys)
  case Nil
  then show ?case by auto
next
  case (Cons x xs)
  then show ?case
    by (cases ys) (auto simp: bind_eq_Some_conv)
qed

lemma each_Some_map:
  assumes "each f xs = Some ys"
  shows "ys = map (\<lambda>x. the (f x)) xs" and "\<forall>x\<in>set xs. f x \<noteq> None"
proof -
  have *: "list_all2 (\<lambda>x y. f x = Some y) xs ys"
    using assms by (simp add: each_Some_iff)
  then show "ys = map (\<lambda>x. the (f x)) xs"
    by (induction rule: list_all2_induct) auto
  from * show "\<forall>x\<in>set xs. f x \<noteq> None"
    by (induction rule: list_all2_induct) auto
qed

lemma each_total: "(\<forall>x\<in>set xs. f x \<noteq> None) \<Longrightarrow> each f xs = Some (map (\<lambda>x. the (f x)) xs)"
  by (induction xs) auto

lemma each_length: "each f xs = Some ys \<Longrightarrow> length ys = length xs"
  by (simp add: each_Some_iff list_all2_lengthD)

lemma map_of_drop_cols:
  "map_of (filter (\<lambda>(k, v). k \<notin> S) r) c = (if c \<in> S then None else map_of r c)"
  by (induction r) auto

lemma df_drop_Some:
  assumes "df_drop cs df = Some out"
  shows "out = map (filter (\<lambda>(k, v). k \<notin> set cs)) df"
    and "\<forall>r\<in>set df. \<forall>c\<in>set cs. map_of r c \<noteq> None"
proof -
  let ?f = "\<lambda>r. if list_all (\<lambda>c. map_of r c \<noteq> None) cs
                then Some (filter (\<lambda>(k, v). k \<notin> set cs) r) else None"
  have e: "each ?f df = Some out" using assms by (simp add: df_drop_def)
  have ok: "\<forall>r\<in>set df. ?f r \<noteq> None" using each_Some_map(2)[OF e] .
  then show "\<forall>r\<in>set df. \<forall>c\<in>set cs. map_of r c \<noteq> None"
    by (auto simp: list_all_iff split: if_splits)
  have "out = map (\<lambda>r. the (?f r)) df" using each_Some_map(1)[OF e] .
  also have "\<dots> = map (filter (\<lambda>(k, v). k \<notin> set cs)) df"
    using ok by (intro map_cong) (auto split: if_splits)
  finally show "out = map (filter (\<lambda>(k, v). k \<notin> set cs)) df" .
qed

lemma zip_filter_snd:
  "map fst (filter (\<lambda>(r, b). P b) (zip xs (map g xs))) = filter (\<lambda>r. P (g r)) xs"
  by (induction xs) auto

lemma df_filter_Some:
  assumes "df_filter p df = Some out"
  shows "out = filter (\<lambda>r. p df r = Some (BoolV True)) df"
    and "\<forall>r\<in>set df. \<exists>b. p df r = Some b \<and> as_bool b \<noteq> None"
proof -
  from assms obtain bs where bs: "each (p df) df = Some bs" and ab: "each as_bool bs \<noteq> None"
    and out: "out = map fst (filter (\<lambda>(r, b). b = BoolV True) (zip df bs))"
    by (auto simp: df_filter_def bind_eq_Some_conv)
  have bs_eq: "bs = map (\<lambda>r. the (p df r)) df" and ok: "\<forall>r\<in>set df. p df r \<noteq> None"
    using each_Some_map[OF bs] by auto
  have "out = filter (\<lambda>r. the (p df r) = BoolV True) df"
    unfolding out bs_eq by (rule zip_filter_snd)
  also have "\<dots> = filter (\<lambda>r. p df r = Some (BoolV True)) df"
    using ok by (intro filter_cong) auto
  finally show "out = filter (\<lambda>r. p df r = Some (BoolV True)) df" .
  from ab obtain cs where "each as_bool bs = Some cs" by auto
  then have "\<forall>b\<in>set bs. as_bool b \<noteq> None" by (rule each_Some_map(2))
  then show "\<forall>r\<in>set df. \<exists>b. p df r = Some b \<and> as_bool b \<noteq> None"
    using ok unfolding bs_eq by (metis (mono_tags, lifting) image_eqI list.set_map option.collapse)
qed

lemma df_drop_nulls_Some:
  assumes "df_drop_nulls c df = Some out"
  shows "out = filter (\<lambda>r. map_of r c \<noteq> Some Null) df"
    and "\<forall>r\<in>set df. map_of r c \<noteq> None"
proof -
  from assms obtain vs where vs: "each (\<lambda>r. map_of r c) df = Some vs"
    and out: "out = map fst (filter (\<lambda>(r, v). v \<noteq> Null) (zip df vs))"
    by (auto simp: df_drop_nulls_def bind_eq_Some_conv)
  have vs_eq: "vs = map (\<lambda>r. the (map_of r c)) df" and ok: "\<forall>r\<in>set df. map_of r c \<noteq> None"
    using each_Some_map[OF vs] by auto
  show "\<forall>r\<in>set df. map_of r c \<noteq> None" by (rule ok)
  have "out = filter (\<lambda>r. the (map_of r c) \<noteq> Null) df"
    unfolding out vs_eq by (rule zip_filter_snd)
  also have "\<dots> = filter (\<lambda>r. map_of r c \<noteq> Some Null) df"
    using ok by (intro filter_cong) auto
  finally show "out = filter (\<lambda>r. map_of r c \<noteq> Some Null) df" .
qed

lemma df_with_columns_Some:
  assumes "df_with_columns es df = Some out"
  shows "out = map (\<lambda>r. AList.updates (map fst es) (map (\<lambda>(c, e). the (e df r)) es) r) df"
    and "\<forall>r\<in>set df. \<forall>(c, e)\<in>set es. e df r \<noteq> None"
proof -
  let ?g = "\<lambda>r. each (\<lambda>(c, e). e df r) es"
  let ?f = "\<lambda>r. do { vs \<leftarrow> ?g r; Some (AList.updates (map fst es) vs r) }"
  have e: "each ?f df = Some out" using assms by (simp add: df_with_columns_def)
  have ok: "\<forall>r\<in>set df. ?f r \<noteq> None" using each_Some_map(2)[OF e] .
  have g: "?g r = Some (map (\<lambda>(c, e). the (e df r)) es) \<and> (\<forall>(c, e)\<in>set es. e df r \<noteq> None)"
    if "r \<in> set df" for r
  proof -
    from ok that obtain vs where vs: "?g r = Some vs" by (auto simp: bind_eq_None_conv)
    from each_Some_map[OF vs] show ?thesis using vs by (auto simp: case_prod_unfold)
  qed
  then show "\<forall>r\<in>set df. \<forall>(c, e)\<in>set es. e df r \<noteq> None" by blast
  have "out = map (\<lambda>r. the (?f r)) df" using each_Some_map(1)[OF e] .
  also have "\<dots> = map (\<lambda>r. AList.updates (map fst es) (map (\<lambda>(c, e). the (e df r)) es) r) df"
    using g by (intro map_cong) auto
  finally show "out = map (\<lambda>r. AList.updates (map fst es) (map (\<lambda>(c, e). the (e df r)) es) r) df" .
qed

lemmas expr_defs =
  pl_col_def pl_lit_def lift1_def lift2_def pl_eq_def pl_ne_def pl_lt_def pl_gt_def
  pl_when_def pl_is_null_def pl_is_not_null_def pl_not_def cell_when_def


lemma cell_lt_num: "num v = Some a \<Longrightarrow> cell_lt v (IntV k) = Some (BoolV (a < of_int k))"
  by (cases v) auto

lemma age_band_num:
  assumes "map_of r ''age'' = Some v" and "num v = Some a"
  shows "age_band df r = Some (StrV (if a < 20 then ''Under 20'' else if a < 29 then ''20-28''
                               else if a < 35 then ''29-35'' else ''35+''))"
  using assms by (simp add: age_band_def expr_defs cell_lt_num)

lemma is_ball_carrier_range:
  assumes "is_ball_carrier df r = Some v"
  shows "v = IntV 0 \<or> v = IntV 1"
proof -
  from assms obtain a b c where "cell_eq a b = Some c" and v: "cell_when c (IntV 1) (IntV 0) = Some v"
    by (auto simp: is_ball_carrier_def expr_defs bind_eq_Some_conv simp del: cell_when_def)
  then show ?thesis
    by (auto simp: cell_when_def bind_eq_Some_conv split: if_splits)
qed

lemma is_ball_carrier_null_right:
  assumes "map_of r ''playerName'' = Some a" and "map_of r ''playerName_right'' = Some Null"
  shows "is_ball_carrier df r = Some (IntV 0)"
  using assms by (cases a) (simp_all add: is_ball_carrier_def expr_defs)

lemma cell_not_not: "cell_not a = Some b \<Longrightarrow> cell_not b = Some a"
  by (cases a) auto

lemma goal_right_swap:
  assumes "cell_not h = Some h'" and "cell_not s = Some s'"
  shows "goal_right h' l s' = goal_right h l s"
proof -
  obtain bh where h: "h = Null \<and> h' = Null \<or> h = BoolV bh \<and> h' = BoolV (\<not> bh)"
    using assms(1) by (cases h) auto
  obtain bs where s: "s = Null \<and> s' = Null \<or> s = BoolV bs \<and> s' = BoolV (\<not> bs)"
    using assms(2) by (cases s) auto
  show ?thesis
  proof (cases "as_bool l")
    case None
    then have "cell_not l = None" by (cases l) auto
    then show ?thesis using h s
      by (auto simp: goal_right_def attack_right_cases_def)
  next
    case (Some bl)
    then have "l = Null \<or> (\<exists>b. l = BoolV b)" by (cases l) auto
    then show ?thesis using h s
      by (auto simp: goal_right_def attack_right_cases_def)
  qed
qed

lemma attack_right_cases_exclusive:
  assumes "attack_right_cases h l s = Some (c1, c2, c3, c4)"
  shows "length (filter (\<lambda>c. c = BoolV True) [c1, c2, c3, c4]) \<le> 1"
proof -
  from assms have "as_bool h \<noteq> None" "as_bool l \<noteq> None" "as_bool s \<noteq> None"
    by (cases h; cases l; cases s; auto simp: attack_right_cases_def)+
  then have "(h = Null \<or> (\<exists>b. h = BoolV b)) \<and> (l = Null \<or> (\<exists>b. l = BoolV b)) \<and> (s = Null \<or> (\<exists>b. s = BoolV b))"
    by (cases h; cases l; cases s; auto)
  then show ?thesis using assms
    by (auto simp: attack_right_cases_def split: if_splits)
qed

lemma keeps_trans: "keeps c a b \<Longrightarrow> keeps c b d \<Longrightarrow> keeps c a d"
  unfolding keeps_def by metis

lemma keeps_refl: "keeps c a a"
  unfolding keeps_def by auto

lemma keeps_with_columns:
  assumes "df_with_columns es df = Some out" and "c \<notin> fst ` set es"
  shows "keeps c df out"
proof -
  have "map_of (AList.updates (map fst es) vs r) c = map_of r c" for vs r
    using assms(2) by (simp add: updates_conv' map_upds_apply_nontin)
  then show ?thesis
    unfolding keeps_def df_with_columns_Some(1)[OF assms(1)] by auto
qed

lemma keeps_drop:
  assumes "df_drop cs df = Some out" and "c \<notin> set cs"
  shows "keeps c df out"
  unfolding keeps_def df_drop_Some(1)[OF assms(1)]
  using assms(2) by (auto simp: map_of_drop_cols)

lemma keeps_filter:
  assumes "df_filter p df = Some out"
  shows "keeps c df out"
  unfolding keeps_def df_filter_Some(1)[OF assms] by auto

lemma keeps_drop_nulls:
  assumes "df_drop_nulls k df = Some out"
  shows "keeps c df out"
  unfolding keeps_def df_drop_nulls_Some(1)[OF assms] by auto

lemma keeps_all:
  assumes "keeps c df out" and "\<forall>r\<in>set df. P (map_of r c)"
  shows "\<forall>r\<in>set out. P (map_of r c)"
  using assms unfolding keeps_def by metis

lemma keeps_goal_assignment:
  assumes "goal_assignment K df = Some out" and "c \<noteq> ''x_goal''" and "c \<noteq> ''y_goal''"
  shows "keeps c df out"
  using assms(1) unfolding goal_assignment_def
  by (rule keeps_with_columns) (use assms(2,3) in auto)





lemma zip_filter_both:
  "filter (\<lambda>(v, b). P b) (zip (map f xs) (map g xs)) = map (\<lambda>x. (f x, g x)) (filter (\<lambda>x. P (g x)) xs)"
  by (induction xs) auto

lemma filter_first_over_Some:
  assumes "pl_filter_first_over e p keys df r = Some v"
  shows "v = (case filter (\<lambda>r'. p df r' = Some (BoolV True))
                     (filter (\<lambda>r'. map (map_of r') keys = map (map_of r) keys) df) of
                [] \<Rightarrow> Null | r' # _ \<Rightarrow> the (e df r'))"
    and "\<forall>r'\<in>set (filter (\<lambda>r'. map (map_of r') keys = map (map_of r) keys) df). e df r' \<noteq> None"
proof -
  let ?grp = "filter (\<lambda>r'. map (map_of r') keys = map (map_of r) keys) df"
  from assms obtain vs ps where vs: "each (e df) ?grp = Some vs" and ps: "each (p df) ?grp = Some ps"
    and v: "v = (case filter (\<lambda>(v, b). b = BoolV True) (zip vs ps) of [] \<Rightarrow> Null | (v, _) # _ \<Rightarrow> v)"
    by (auto simp: pl_filter_first_over_def bind_eq_Some_conv Let_def)
  have vs_eq: "vs = map (\<lambda>x. the (e df x)) ?grp" using each_Some_map(1)[OF vs] .
  have ps_eq: "ps = map (\<lambda>x. the (p df x)) ?grp" and ok: "\<forall>x\<in>set ?grp. p df x \<noteq> None"
    using each_Some_map[OF ps] by auto
  show "\<forall>r'\<in>set ?grp. e df r' \<noteq> None" using each_Some_map(2)[OF vs] .
  have f: "filter (\<lambda>x. the (p df x) = BoolV True) ?grp = filter (\<lambda>x. p df x = Some (BoolV True)) ?grp"
    using ok by (intro filter_cong) auto
  have "filter (\<lambda>(v, b). b = BoolV True) (zip vs ps)
        = map (\<lambda>x. (the (e df x), the (p df x))) (filter (\<lambda>x. p df x = Some (BoolV True)) ?grp)"
    unfolding vs_eq ps_eq zip_filter_both f ..
  then show "v = (case filter (\<lambda>r'. p df r' = Some (BoolV True)) ?grp of
                [] \<Rightarrow> Null | r' # _ \<Rightarrow> the (e df r'))"
    unfolding v by (simp split: list.splits)
qed

lemma ball_expr_Some:
  assumes "ball_expr c df r = Some v"
  shows "Some v = (case ball_rows df r of [] \<Rightarrow> Some Null | b # _ \<Rightarrow> map_of b c)"
proof -
  let ?keys = "[''gameEventId'', ''possessionEventId'']"
  let ?grp = "filter (\<lambda>r'. map (map_of r') ?keys = map (map_of r) ?keys) df"
  note a = assms[unfolded ball_expr_def]
  have ok: "\<forall>r'\<in>set ?grp. map_of r' c \<noteq> None"
    using filter_first_over_Some(2)[OF a] by (simp add: pl_col_def)
  have p: "(pl_is_null (pl_col ''team'') df r' = Some (BoolV True)) = (map_of r' ''team'' = Some Null)" for r'
    by (auto simp: expr_defs bind_eq_Some_conv)
  have br: "ball_rows df r = filter (\<lambda>r'. map_of r' ''team'' = Some Null) ?grp"
    by (simp add: ball_rows_def group_of_def)
  have v: "v = (case ball_rows df r of [] \<Rightarrow> Null | b # _ \<Rightarrow> the (map_of b c))"
    using filter_first_over_Some(1)[OF a] unfolding p
    by (simp add: ball_rows_def group_of_def pl_col_def cong: list.case_cong)
  show ?thesis
  proof (cases "ball_rows df r")
    case Nil
    then show ?thesis using v by simp
  next
    case (Cons b bs)
    then have "b \<in> set (ball_rows df r)" by simp
    then have "b \<in> set ?grp" unfolding br by simp
    then have "map_of b c \<noteq> None" using ok by blast
    then show ?thesis using v Cons by auto
  qed
qed

lemma list_all2_map_right: "list_all2 P xs (map f xs) \<longleftrightarrow> (\<forall>x\<in>set xs. P x (f x))"
  by (induction xs) auto

lemma map_of_updates_other:
  "k \<notin> set ks \<Longrightarrow> map_of (AList.updates ks vs r) k = map_of r k"
  by (simp add: updates_conv' map_upds_apply_nontin)

lemma map_of_updates_map:
  "distinct (map f cs) \<Longrightarrow> c \<in> set cs \<Longrightarrow>
   map_of (AList.updates (map f cs) (map g cs) r) (f c) = Some (g c)"
proof (induction cs arbitrary: r)
  case Nil
  then show ?case by simp
next
  case (Cons a cs)
  show ?case
  proof (cases "c = a")
    case True
    have "f a \<notin> set (map f cs)" using Cons.prems(1) by simp
    then show ?thesis
      using True by (simp add: AList.updates_def map_of_updates_other[unfolded AList.updates_def] update_conv')
  next
    case False
    then have "c \<in> set cs" using Cons.prems(2) by simp
    moreover have "distinct (map f cs)" using Cons.prems(1) by simp
    ultimately show ?thesis
      using Cons.IH[of "AList.update (f a) (g a) r"] by (simp add: AList.updates_def)
  qed
qed

lemma ball_features_Some:
  assumes "ball_features df = Some out"
  shows "list_all2 (\<lambda>r r'.
           (\<forall>c\<in>set ball_source_cols.
              map_of r' (c @ ''_ball'') = (case ball_rows df r of [] \<Rightarrow> Some Null | b # _ \<Rightarrow> map_of b c))
           \<and> map_of r' ''z'' = None) df out"
proof -
  let ?es = "map (\<lambda>c. (c @ ''_ball'', ball_expr c)) ball_source_cols"
  from assms obtain d1 where d1: "df_with_columns ?es df = Some d1"
    and out: "df_drop [''z''] d1 = Some out"
    by (auto simp: ball_features_def bind_eq_Some_conv)
  define F where "F = (\<lambda>r. AList.updates (map (\<lambda>c. c @ ''_ball'') ball_source_cols)
                               (map (\<lambda>c. the (ball_expr c df r)) ball_source_cols) r)"
  have d1_eq: "d1 = map F df"
    using df_with_columns_Some(1)[OF d1] by (simp add: F_def comp_def)
  have out_eq: "out = map (\<lambda>r. filter (\<lambda>(k, v). k \<notin> set [''z'']) (F r)) df"
    using df_drop_Some(1)[OF out] unfolding d1_eq by (simp add: comp_def)
  have dist: "distinct (map (\<lambda>c. c @ ''_ball'') ball_source_cols)"
    by (simp add: ball_source_cols_def)
  have row: "map_of (filter (\<lambda>(k, v). k \<notin> set [''z'']) (F r)) (c @ ''_ball'')
             = (case ball_rows df r of [] \<Rightarrow> Some Null | b # _ \<Rightarrow> map_of b c)"
    if r: "r \<in> set df" and c: "c \<in> set ball_source_cols" for r c
  proof -
    have "(c @ ''_ball'', ball_expr c) \<in> set ?es" using c by simp
    with df_with_columns_Some(2)[OF d1] r obtain v where v: "ball_expr c df r = Some v"
      by fastforce
    have "map_of (F r) (c @ ''_ball'') = Some (the (ball_expr c df r))"
      unfolding F_def using dist c by (rule map_of_updates_map)
    then have "map_of (F r) (c @ ''_ball'') = Some v" using v by simp
    moreover have "c @ ''_ball'' \<noteq> ''z''"
    proof
      assume "c @ ''_ball'' = ''z''"
      then have "length (c @ ''_ball'') = length ''z''" by (rule arg_cong)
      then show False by simp
    qed
    ultimately show ?thesis
      using ball_expr_Some[OF v] by (simp add: map_of_drop_cols[of "{''z''}", simplified])
  qed
  have z: "map_of (filter (\<lambda>(k, v). k \<notin> set [''z'']) (F r)) ''z'' = None" for r
    by (simp add: map_of_drop_cols[of "{''z''}", simplified])
  show ?thesis
    unfolding out_eq list_all2_map_right
  proof (intro ballI conjI)
    fix r c assume "r \<in> set df" "c \<in> set ball_source_cols"
    then show "map_of (filter (\<lambda>(k, v). k \<notin> set [''z'']) (F r)) (c @ ''_ball'')
             = (case ball_rows df r of [] \<Rightarrow> Some Null | b # _ \<Rightarrow> map_of b c)"
      by (rule row)
  next
    fix r show "map_of (filter (\<lambda>(k, v). k \<notin> set [''z'']) (F r)) ''z'' = None" by (rule z)
  qed
qed

lemma list_all2_conjI:
  "list_all2 P xs ys \<Longrightarrow> list_all2 Q xs ys \<Longrightarrow> list_all2 (\<lambda>x y. P x y \<and> Q x y) xs ys"
  by (simp add: list_all2_conv_all_nth)

lemma list_all2_comp:
  assumes "list_all2 P xs ys" and "list_all2 Q ys zs" and "\<And>x y z. P x y \<Longrightarrow> Q y z \<Longrightarrow> R x z"
  shows "list_all2 R xs zs"
  using assms by (auto simp: list_all2_conv_all_nth)

lemma df_with_columns_value:
  assumes "df_with_columns es df = Some out" and "distinct (map fst es)" and "(c, e) \<in> set es"
  shows "list_all2 (\<lambda>r r'. map_of r' c = e df r \<and> e df r \<noteq> None) df out"
proof -
  have "map_of (AList.updates (map fst es) (map (\<lambda>(c, e). the (e df r)) es) r) c = e df r
        \<and> e df r \<noteq> None"
    if r: "r \<in> set df" for r
  proof -
    have "e df r \<noteq> None" using df_with_columns_Some(2)[OF assms(1)] r assms(3) by blast
    moreover have "map_of (AList.updates (map fst es) (map (\<lambda>ce. the (snd ce df r)) es) r) (fst (c, e))
                   = Some (the (snd (c, e) df r))"
      using assms(2,3) by (rule map_of_updates_map)
    ultimately show ?thesis by (auto simp: case_prod_unfold)
  qed
  then show ?thesis
    unfolding df_with_columns_Some(1)[OF assms(1)] list_all2_map_right by blast
qed

lemma df_with_columns_other:
  assumes "df_with_columns es df = Some out" and "c \<notin> fst ` set es"
  shows "list_all2 (\<lambda>r r'. map_of r' c = map_of r c) df out"
  unfolding df_with_columns_Some(1)[OF assms(1)] list_all2_map_right
  using assms(2) by (simp add: map_of_updates_other)

lemma df_drop_rel:
  assumes "df_drop cs df = Some out"
  shows "list_all2 (\<lambda>r r'. \<forall>c. map_of r' c = (if c \<in> set cs then None else map_of r c)) df out"
  unfolding df_drop_Some(1)[OF assms] list_all2_map_right
  by (simp add: map_of_drop_cols)

lemma derived_columns_Some:
  assumes "derived_columns lib df = Some out"
  shows "list_all2 (\<lambda>r r'. map_of r' ''is_ball_carrier'' = is_ball_carrier df r
                          \<and> map_of r' ''age'' = age_band df r
                          \<and> is_ball_carrier df r \<noteq> None) df out"
proof -
  from assms obtain d1 es where es: "es =
             [(''frameTime'', frame_seconds lib),
              (''is_ball_carrier'', is_ball_carrier),
              (''Weight'', lift1 (cast_float64 lib) (pl_str_replace ''kg'' [] (pl_col ''Weight''))),
              (''height_cm'', lift1 (cast_float64 lib) (pl_col ''height_cm'')),
              (''age'', age_band)]"
    and d1: "df_with_columns es df = Some d1"
    and out: "df_drop [''playerName'', ''playerName_right''] d1 = Some out"
    by (auto simp: derived_columns_def bind_eq_Some_conv)
  have dist: "distinct (map fst es)" by (simp add: es)
  have a: "list_all2 (\<lambda>r r'. map_of r' ''is_ball_carrier'' = is_ball_carrier df r
                             \<and> is_ball_carrier df r \<noteq> None) df d1"
    using d1 dist by (rule df_with_columns_value) (simp add: es)
  have b: "list_all2 (\<lambda>r r'. map_of r' ''age'' = age_band df r \<and> age_band df r \<noteq> None) df d1"
    using d1 dist by (rule df_with_columns_value) (simp add: es)
  show ?thesis
    by (rule list_all2_comp[OF list_all2_conjI[OF a b] df_drop_rel[OF out]]) simp
qed

lemma goal_assignment_Some:
  assumes "goal_assignment K df = Some out"
  shows "list_all2 (\<lambda>r r'. map_of r' ''x_goal'' = is_goal_right df r \<bind> goal_x K
                          \<and> map_of r' ''y_goal'' = Some (FloatV (Y_GOAL K))) df out"
proof -
  note d = assms[unfolded goal_assignment_def]
  have dist: "distinct (map fst [(''x_goal'', lift1 (goal_x K) is_goal_right),
        (''y_goal'', pl_lit (FloatV (Y_GOAL K)))])" by simp
  have a: "list_all2 (\<lambda>r r'. map_of r' ''x_goal'' = lift1 (goal_x K) is_goal_right df r
                \<and> lift1 (goal_x K) is_goal_right df r \<noteq> None) df out"
    using d dist by (rule df_with_columns_value) simp
  have b: "list_all2 (\<lambda>r r'. map_of r' ''y_goal'' = pl_lit (FloatV (Y_GOAL K)) df r
                \<and> pl_lit (FloatV (Y_GOAL K)) df r \<noteq> None) df out"
    using d dist by (rule df_with_columns_value) simp
  show ?thesis
    by (rule list_all2_mono[OF list_all2_conjI[OF a b]]) (simp add: lift1_def pl_lit_def)
qed

text \<open>
  Claim C9. The age column is replaced by one of four bands with fixed thresholds: an age
  below 20 gives \<open>Under 20\<close>, an age from 20 and below 29 gives \<open>20-28\<close>, an age from 29 and
  below 35 gives \<open>29-35\<close>, and an age of 35 or more gives \<open>35+\<close>; this is the value the
  derived-columns step writes into the \<open>age\<close> column of every row.
\<close>

theorem age_band_thresholds:
  "(map_of r ''age'' = Some v \<and> num v = Some a \<longrightarrow>
      age_band df r = Some (StrV (if a < 20 then ''Under 20'' else if a < 29 then ''20-28''
                                  else if a < 35 then ''29-35'' else ''35+'')))
   \<and> (derived_columns lib df = Some out \<longrightarrow>
        list_all2 (\<lambda>r r'. map_of r' ''age'' = age_band df r) df out)"
proof (intro conjI impI)
  assume "map_of r ''age'' = Some v \<and> num v = Some a"
  then show "age_band df r = Some (StrV (if a < 20 then ''Under 20'' else if a < 29 then ''20-28''
                                  else if a < 35 then ''29-35'' else ''35+''))"
    using age_band_num by blast
next
  assume "derived_columns lib df = Some out"
  from derived_columns_Some[OF this]
  show "list_all2 (\<lambda>r r'. map_of r' ''age'' = age_band df r) df out"
    by (rule list_all2_mono) simp
qed

lemmas expr_eval =
  expr_defs pl_is_in_def float1_def pl_radians_def pl_cos_def pl_sin_def pl_mul_def
  cast_uint16_def cast_float64_def cast_int8_def pl_str_split_get_def pl_str_replace_def
  pl_filter_first_over_def df_with_columns_def df_drop_def df_filter_def df_drop_nulls_def
  AList.updates_def frame_seconds_def is_ball_carrier_def age_band_def

lemma example_derived:
  "derived_columns example_casts example_players =
     Some [[(''frameTime'', IntV 754), (''Weight'', FloatV 75), (''height_cm'', FloatV 180),
            (''age'', StrV ''Under 20''), (''is_ball_carrier'', IntV 1)],
           [(''frameTime'', IntV 7), (''Weight'', Null), (''height_cm'', Null),
            (''age'', StrV ''29-35''), (''is_ball_carrier'', IntV 0)],
           [(''frameTime'', Null), (''Weight'', FloatV 80), (''height_cm'', FloatV 175),
            (''age'', StrV ''35+''), (''is_ball_carrier'', IntV 0)]]"
  by (simp add: derived_columns_def example_players_def ann_def bob_def cy_def example_casts_def
      decimal_def digit_of_def expr_eval)

lemma attack_right_cases_bool:
  "attack_right_cases (BoolV hb) (BoolV lb) (BoolV sb)
     = Some (BoolV (hb \<and> lb \<and> \<not> sb), BoolV (hb \<and> \<not> lb \<and> sb),
             BoolV (\<not> hb \<and> \<not> lb \<and> \<not> sb), BoolV (\<not> hb \<and> lb \<and> sb))"
  by (simp add: attack_right_cases_def)

lemma goal_right_bool:
  "goal_right (BoolV hb) (BoolV lb) (BoolV sb)
     = Some (BoolV ((hb \<and> lb \<and> \<not> sb) \<or> (hb \<and> \<not> lb \<and> sb)
                    \<or> (\<not> hb \<and> \<not> lb \<and> \<not> sb) \<or> (\<not> hb \<and> lb \<and> sb)))"
  by (simp add: goal_right_def attack_right_cases_bool)

lemma is_goal_right_row:
  assumes "map_of row ''team'' = Some (StrV t)"
    and "map_of row ''frameTime'' = Some ft" and "num ft = Some a"
    and "map_of row ''startPeriod2'' = Some sp" and "num sp = Some b"
    and "map_of row ''homeTeamStartLeft'' = Some (BoolV lb)"
  shows "is_goal_right d row
     = Some (BoolV ((t = ''home'' \<and> lb \<and> \<not> b < a) \<or> (t = ''home'' \<and> \<not> lb \<and> b < a)
                    \<or> (t \<noteq> ''home'' \<and> \<not> lb \<and> \<not> b < a) \<or> (t \<noteq> ''home'' \<and> lb \<and> b < a)))"
proof -
  have h: "is_home_team d row = Some (BoolV (t = ''home''))"
    using assms(1) by (simp add: is_home_team_def expr_defs)
  have "cell_lt sp ft = Some (BoolV (b < a))"
    using assms(3,5) by (cases sp; cases ft) auto
  then have s: "is_second_half d row = Some (BoolV (b < a))"
    using assms(2,4) by (simp add: is_second_half_def expr_defs)
  show ?thesis
    using assms(6) by (simp add: is_goal_right_def h s pl_col_def goal_right_bool)
qed

text \<open>
  Claim C6. Negating both the home-team indicator and the second-half indicator leaves
  the attack direction, and with it the goal x-coordinate, unchanged; the direction is
  the disjunction of four conjunctions of which at most one is true, namely home side
  starting left in the first half, home side starting right in the second half, away
  side with the home side starting right in the first half, and away side with the home
  side starting left in the second half, the home side being the team \<open>home\<close> and the
  second half the frame times after \<open>startPeriod2\<close>; the goal x-coordinate is the right
  goal's when attacking right and the left goal's otherwise; and the goal y-coordinate
  is the same constant on every row.
\<close>

theorem attack_direction_symmetric:
  "(cell_not h = Some h' \<and> cell_not s = Some s' \<longrightarrow>
      goal_right h' l s' = goal_right h l s
      \<and> goal_right h' l s' \<bind> goal_x K = goal_right h l s \<bind> goal_x K)
   \<and> (is_home_team df r = Some h \<and> is_second_half df r = Some s
        \<and> is_home_team df' r' = cell_not h \<and> is_second_half df' r' = cell_not s
        \<and> map_of r' ''homeTeamStartLeft'' = map_of r ''homeTeamStartLeft'' \<longrightarrow>
        is_goal_right df' r' = is_goal_right df r)
   \<and> (attack_right_cases h l s = Some (c1, c2, c3, c4) \<longrightarrow>
        length (filter (\<lambda>c. c = BoolV True) [c1, c2, c3, c4]) \<le> 1
        \<and> goal_right h l s = do { c12 \<leftarrow> cell_or c1 c2; c123 \<leftarrow> cell_or c12 c3; cell_or c123 c4 })
   \<and> attack_right_cases (BoolV hb) (BoolV lb) (BoolV sb)
       = Some (BoolV (hb \<and> lb \<and> \<not> sb), BoolV (hb \<and> \<not> lb \<and> sb),
               BoolV (\<not> hb \<and> \<not> lb \<and> \<not> sb), BoolV (\<not> hb \<and> lb \<and> sb))
   \<and> goal_right (BoolV hb) (BoolV lb) (BoolV sb)
       = Some (BoolV ((hb \<and> lb \<and> \<not> sb) \<or> (hb \<and> \<not> lb \<and> sb)
                      \<or> (\<not> hb \<and> \<not> lb \<and> \<not> sb) \<or> (\<not> hb \<and> lb \<and> sb)))
   \<and> (map_of row ''team'' = Some (StrV t)
        \<and> map_of row ''frameTime'' = Some ft \<and> num ft = Some a
        \<and> map_of row ''startPeriod2'' = Some sp \<and> num sp = Some b
        \<and> map_of row ''homeTeamStartLeft'' = Some (BoolV lb) \<longrightarrow>
        is_goal_right d row
          = Some (BoolV ((t = ''home'' \<and> lb \<and> \<not> b < a) \<or> (t = ''home'' \<and> \<not> lb \<and> b < a)
                         \<or> (t \<noteq> ''home'' \<and> \<not> lb \<and> \<not> b < a) \<or> (t \<noteq> ''home'' \<and> lb \<and> b < a))))
   \<and> goal_x K (BoolV True) = Some (FloatV (X_GOAL_RIGHT K))
   \<and> goal_x K (BoolV False) = Some (FloatV (X_GOAL_LEFT K))
   \<and> goal_x K Null = Some (FloatV (X_GOAL_LEFT K))
   \<and> (goal_assignment K df = Some out \<longrightarrow>
        list_all2 (\<lambda>r r'. map_of r' ''x_goal'' = is_goal_right df r \<bind> goal_x K
                         \<and> map_of r' ''y_goal'' = Some (FloatV (Y_GOAL K))) df out)"
proof (intro conjI impI)
  assume a: "cell_not h = Some h' \<and> cell_not s = Some s'"
  then show g: "goal_right h' l s' = goal_right h l s" using goal_right_swap by blast
  show "goal_right h' l s' \<bind> goal_x K = goal_right h l s \<bind> goal_x K" unfolding g ..
next
  assume a: "is_home_team df r = Some h \<and> is_second_half df r = Some s
        \<and> is_home_team df' r' = cell_not h \<and> is_second_half df' r' = cell_not s
        \<and> map_of r' ''homeTeamStartLeft'' = map_of r ''homeTeamStartLeft''"
  show "is_goal_right df' r' = is_goal_right df r"
  proof (cases "cell_not h")
    case None
    then have "goal_right h l s = None" for l
      by (simp add: goal_right_def attack_right_cases_def)
    then show ?thesis using a None by (simp add: is_goal_right_def pl_col_def)
  next
    case h': (Some h')
    show ?thesis
    proof (cases "cell_not s")
      case None
      then have "goal_right h l s = None" for l
        by (cases "cell_not h"; cases "cell_not l") (simp_all add: goal_right_def attack_right_cases_def)
      then show ?thesis using a None h' by (simp add: is_goal_right_def pl_col_def)
    next
      case s': (Some s')
      have "goal_right h' l s' = goal_right h l s" for l
        using h' s' by (rule goal_right_swap)
      then show ?thesis using a h' s' by (simp add: is_goal_right_def pl_col_def)
    qed
  qed
next
  assume a: "attack_right_cases h l s = Some (c1, c2, c3, c4)"
  then show "length (filter (\<lambda>c. c = BoolV True) [c1, c2, c3, c4]) \<le> 1"
    by (rule attack_right_cases_exclusive)
  show "goal_right h l s = do { c12 \<leftarrow> cell_or c1 c2; c123 \<leftarrow> cell_or c12 c3; cell_or c123 c4 }"
    using a by (simp add: goal_right_def)
next
  show "attack_right_cases (BoolV hb) (BoolV lb) (BoolV sb)
       = Some (BoolV (hb \<and> lb \<and> \<not> sb), BoolV (hb \<and> \<not> lb \<and> sb),
               BoolV (\<not> hb \<and> \<not> lb \<and> \<not> sb), BoolV (\<not> hb \<and> lb \<and> sb))"
    by (rule attack_right_cases_bool)
next
  show "goal_right (BoolV hb) (BoolV lb) (BoolV sb)
       = Some (BoolV ((hb \<and> lb \<and> \<not> sb) \<or> (hb \<and> \<not> lb \<and> sb)
                      \<or> (\<not> hb \<and> \<not> lb \<and> \<not> sb) \<or> (\<not> hb \<and> lb \<and> sb)))"
    by (rule goal_right_bool)
next
  assume "map_of row ''team'' = Some (StrV t)
        \<and> map_of row ''frameTime'' = Some ft \<and> num ft = Some a
        \<and> map_of row ''startPeriod2'' = Some sp \<and> num sp = Some b
        \<and> map_of row ''homeTeamStartLeft'' = Some (BoolV lb)"
  then show "is_goal_right d row
          = Some (BoolV ((t = ''home'' \<and> lb \<and> \<not> b < a) \<or> (t = ''home'' \<and> \<not> lb \<and> b < a)
                         \<or> (t \<noteq> ''home'' \<and> \<not> lb \<and> \<not> b < a) \<or> (t \<noteq> ''home'' \<and> lb \<and> b < a)))"
    using is_goal_right_row[of row t ft a sp b lb d] by blast
next
  show "goal_x K (BoolV True) = Some (FloatV (X_GOAL_RIGHT K))"
    and "goal_x K (BoolV False) = Some (FloatV (X_GOAL_LEFT K))"
    and "goal_x K Null = Some (FloatV (X_GOAL_LEFT K))"
    by (simp_all add: goal_x_def cell_when_def)
next
  assume "goal_assignment K df = Some out"
  then show "list_all2 (\<lambda>r r'. map_of r' ''x_goal'' = is_goal_right df r \<bind> goal_x K
                         \<and> map_of r' ''y_goal'' = Some (FloatV (Y_GOAL K))) df out"
    by (rule goal_assignment_Some)
qed

theorem age_band_thresholds_witness:
  "age_band example_players ann = Some (StrV ''Under 20'')
   \<and> age_band example_players bob = Some (StrV ''29-35'')
   \<and> age_band example_players cy = Some (StrV ''35+'')
   \<and> list_all2 (\<lambda>r r'. map_of r' ''age'' = age_band example_players r) example_players
        (the (derived_columns example_casts example_players))"
proof -
  let ?out = "the (derived_columns example_casts example_players)"
  have d: "derived_columns example_casts example_players = Some ?out"
    by (simp add: example_derived)
  have "age_band example_players ann = Some (StrV ''Under 20'')"
    using age_band_thresholds[where r = ann and v = "IntV 19" and a = 19
          and df = example_players and lib = example_casts and out = ?out]
    by (simp add: ann_def)
  moreover have "age_band example_players bob = Some (StrV ''29-35'')"
    using age_band_thresholds[where r = bob and v = "IntV 29" and a = 29
          and df = example_players and lib = example_casts and out = ?out]
    by (simp add: bob_def)
  moreover have "age_band example_players cy = Some (StrV ''35+'')"
    using age_band_thresholds[where r = cy and v = "IntV 40" and a = 40
          and df = example_players and lib = example_casts and out = ?out]
    by (simp add: cy_def)
  moreover have "list_all2 (\<lambda>r r'. map_of r' ''age'' = age_band example_players r) example_players ?out"
    using age_band_thresholds[where r = ann and v = "IntV 19" and a = 19
          and df = example_players and lib = example_casts and out = ?out] d
    by blast
  ultimately show ?thesis by blast
qed

text \<open>
  Claim C10. The ball-carrier flag is 0 or 1 and never null: whenever the expression
  evaluates its value is 0 or 1; a null \<open>playerName_right\<close> makes the comparison null, which
  \<open>when\<close> sends to the otherwise-branch, so the flag is 0; for two names it is 1 exactly
  when they are equal; and every row that the derived-columns step returns carries 0 or 1.
\<close>

theorem is_ball_carrier_total:
  "(is_ball_carrier df r = Some v \<longrightarrow> v = IntV 0 \<or> v = IntV 1)
   \<and> (map_of r ''playerName'' = Some a \<and> map_of r ''playerName_right'' = Some Null \<longrightarrow>
        is_ball_carrier df r = Some (IntV 0))
   \<and> (map_of r ''playerName'' = Some (StrV s) \<and> map_of r ''playerName_right'' = Some (StrV t) \<longrightarrow>
        is_ball_carrier df r = Some (IntV (if s = t then 1 else 0)))
   \<and> (derived_columns lib df = Some out \<longrightarrow>
        list_all (\<lambda>r'. map_of r' ''is_ball_carrier'' = Some (IntV 0)
                      \<or> map_of r' ''is_ball_carrier'' = Some (IntV 1)) out)"
proof (intro conjI impI)
  assume "is_ball_carrier df r = Some v"
  then show "v = IntV 0 \<or> v = IntV 1" by (rule is_ball_carrier_range)
next
  assume "map_of r ''playerName'' = Some a \<and> map_of r ''playerName_right'' = Some Null"
  then show "is_ball_carrier df r = Some (IntV 0)"
    using is_ball_carrier_null_right by blast
next
  assume "map_of r ''playerName'' = Some (StrV s) \<and> map_of r ''playerName_right'' = Some (StrV t)"
  then show "is_ball_carrier df r = Some (IntV (if s = t then 1 else 0))"
    by (simp add: is_ball_carrier_def expr_defs)
next
  assume "derived_columns lib df = Some out"
  from derived_columns_Some[OF this]
  have "list_all2 (\<lambda>r r'. map_of r' ''is_ball_carrier'' = Some (IntV 0)
                      \<or> map_of r' ''is_ball_carrier'' = Some (IntV 1)) df out"
  proof (rule list_all2_mono)
    fix r r'
    assume "map_of r' ''is_ball_carrier'' = is_ball_carrier df r \<and> map_of r' ''age'' = age_band df r
            \<and> is_ball_carrier df r \<noteq> None"
    then obtain v where "is_ball_carrier df r = Some v" and "map_of r' ''is_ball_carrier'' = Some v"
      by auto
    then show "map_of r' ''is_ball_carrier'' = Some (IntV 0) \<or> map_of r' ''is_ball_carrier'' = Some (IntV 1)"
      using is_ball_carrier_range by blast
  qed
  then show "list_all (\<lambda>r'. map_of r' ''is_ball_carrier'' = Some (IntV 0)
                      \<or> map_of r' ''is_ball_carrier'' = Some (IntV 1)) out"
    by (auto simp: list_all2_conv_all_nth list_all_length)
qed

theorem is_ball_carrier_total_witness:
  "is_ball_carrier example_players bob = Some (IntV 0)
   \<and> is_ball_carrier example_players ann = Some (IntV 1)
   \<and> is_ball_carrier example_players cy = Some (IntV 0)
   \<and> list_all (\<lambda>r'. map_of r' ''is_ball_carrier'' = Some (IntV 0)
                   \<or> map_of r' ''is_ball_carrier'' = Some (IntV 1))
        (the (derived_columns example_casts example_players))
   \<and> map (\<lambda>r'. map_of r' ''is_ball_carrier'') (the (derived_columns example_casts example_players))
       = [Some (IntV 1), Some (IntV 0), Some (IntV 0)]"
proof -
  let ?out = "the (derived_columns example_casts example_players)"
  have d: "derived_columns example_casts example_players = Some ?out"
    by (simp add: example_derived)
  have "is_ball_carrier example_players bob = Some (IntV 0)"
    using is_ball_carrier_total[where df = example_players and r = bob and v = "IntV 0"
          and a = "StrV ''Bob''" and s = "''Bob''" and t = "''Ann''" and lib = example_casts
          and out = ?out]
    by (simp add: bob_def)
  moreover have "is_ball_carrier example_players ann = Some (IntV 1)"
    using is_ball_carrier_total[where df = example_players and r = ann and v = "IntV 1"
          and a = "StrV ''Ann''" and s = "''Ann''" and t = "''Ann''" and lib = example_casts
          and out = ?out]
    by (simp add: ann_def)
  moreover have "is_ball_carrier example_players cy = Some (IntV 0)"
    using is_ball_carrier_total[where df = example_players and r = cy and v = "IntV 0"
          and a = "StrV ''Cy''" and s = "''Cy''" and t = "''Ann''" and lib = example_casts
          and out = ?out]
    by (simp add: cy_def)
  moreover have "list_all (\<lambda>r'. map_of r' ''is_ball_carrier'' = Some (IntV 0)
                   \<or> map_of r' ''is_ball_carrier'' = Some (IntV 1)) ?out"
    using is_ball_carrier_total[where df = example_players and r = bob and v = "IntV 0"
          and a = "StrV ''Bob''" and s = "''Bob''" and t = "''Ann''" and lib = example_casts
          and out = ?out] d
    by blast
  moreover have "map (\<lambda>r'. map_of r' ''is_ball_carrier'') ?out
       = [Some (IntV 1), Some (IntV 0), Some (IntV 0)]"
    by (simp add: example_derived)
  ultimately show ?thesis by blast
qed

lemmas goal_eval =
  goal_assignment_def is_goal_right_def goal_right_def attack_right_cases_def goal_x_def
  is_home_team_def is_second_half_def

lemma example_goals:
  "goal_assignment example_constants example_sides =
     Some (map2 (\<lambda>r x. r @ [(''x_goal'', FloatV x), (''y_goal'', FloatV 0)]) example_sides
             [52.5, 52.5, - 52.5, - 52.5, - 52.5, 52.5, 52.5, - 52.5])"
  by (simp add: example_sides_def side_row_def example_constants_def goal_eval expr_eval)

theorem attack_direction_symmetric_witness:
  "goal_right (BoolV False) (BoolV True) (BoolV True) = goal_right (BoolV True) (BoolV True) (BoolV False)
   \<and> goal_right (BoolV True) (BoolV True) (BoolV False) = Some (BoolV True)
   \<and> is_goal_right example_sides (example_sides ! 1) = is_goal_right example_sides (example_sides ! 0)
   \<and> length (filter (\<lambda>c. c = BoolV True) [BoolV True, BoolV False, BoolV False, BoolV False]) \<le> 1
   \<and> attack_right_cases (BoolV True) (BoolV False) (BoolV False)
       = Some (BoolV False, BoolV False, BoolV False, BoolV False)
   \<and> goal_right (BoolV True) (BoolV False) (BoolV False) = Some (BoolV False)
   \<and> example_sides ! 4 = side_row ''home'' 754 False
   \<and> is_goal_right example_sides (example_sides ! 4) = Some (BoolV False)
   \<and> list_all2 (\<lambda>r r'. map_of r' ''x_goal'' = is_goal_right example_sides r \<bind> goal_x example_constants
                         \<and> map_of r' ''y_goal'' = Some (FloatV (Y_GOAL example_constants)))
        example_sides (the (goal_assignment example_constants example_sides))
   \<and> map (\<lambda>r. (map_of r ''team'', map_of r ''frameTime'', map_of r ''homeTeamStartLeft'',
                 map_of r ''x_goal''))
       (the (goal_assignment example_constants example_sides))
       = [(Some (StrV ''home''), Some (IntV 754), Some (BoolV True), Some (FloatV 52.5)),
          (Some (StrV ''away''), Some (IntV 3100), Some (BoolV True), Some (FloatV 52.5)),
          (Some (StrV ''away''), Some (IntV 754), Some (BoolV True), Some (FloatV (- 52.5))),
          (Some (StrV ''home''), Some (IntV 3100), Some (BoolV True), Some (FloatV (- 52.5))),
          (Some (StrV ''home''), Some (IntV 754), Some (BoolV False), Some (FloatV (- 52.5))),
          (Some (StrV ''home''), Some (IntV 3100), Some (BoolV False), Some (FloatV 52.5)),
          (Some (StrV ''away''), Some (IntV 754), Some (BoolV False), Some (FloatV 52.5)),
          (Some (StrV ''away''), Some (IntV 3100), Some (BoolV False), Some (FloatV (- 52.5)))]"
proof -
  let ?out = "the (goal_assignment example_constants example_sides)"
  note t = attack_direction_symmetric[where h = "BoolV True" and h' = "BoolV False"
          and s = "BoolV False" and s' = "BoolV True" and l = "BoolV True"
          and K = example_constants and df = example_sides and r = "example_sides ! 0"
          and df' = example_sides and r' = "example_sides ! 1"
          and ?c1.0 = "BoolV True" and ?c2.0 = "BoolV False" and ?c3.0 = "BoolV False"
          and ?c4.0 = "BoolV False" and out = ?out
          and hb = True and lb = False and sb = False
          and row = "example_sides ! 4" and t = "''home''" and ft = "IntV 754" and a = 754
          and sp = "FloatV 3000" and b = 3000 and d = example_sides]
  have d: "goal_assignment example_constants example_sides = Some ?out"
    by (simp add: example_goals)
  have n: "cell_not (BoolV True) = Some (BoolV False) \<and> cell_not (BoolV False) = Some (BoolV True)"
    by simp
  have 1: "goal_right (BoolV False) (BoolV True) (BoolV True) = goal_right (BoolV True) (BoolV True) (BoolV False)"
    using t n by blast
  have 2: "goal_right (BoolV True) (BoolV True) (BoolV False) = Some (BoolV True)"
    by (simp add: goal_right_def attack_right_cases_def)
  have r0: "is_home_team example_sides (example_sides ! 0) = Some (BoolV True)
            \<and> is_second_half example_sides (example_sides ! 0) = Some (BoolV False)"
    by (simp add: example_sides_def side_row_def is_home_team_def is_second_half_def expr_defs)
  have r1: "is_home_team example_sides (example_sides ! 1) = cell_not (BoolV True)
            \<and> is_second_half example_sides (example_sides ! 1) = cell_not (BoolV False)
            \<and> map_of (example_sides ! 1) ''homeTeamStartLeft'' = map_of (example_sides ! 0) ''homeTeamStartLeft''"
    by (simp add: example_sides_def side_row_def is_home_team_def is_second_half_def expr_defs)
  have 3: "is_goal_right example_sides (example_sides ! 1) = is_goal_right example_sides (example_sides ! 0)"
    using t r0 r1 by blast
  have c: "attack_right_cases (BoolV True) (BoolV True) (BoolV False)
       = Some (BoolV True, BoolV False, BoolV False, BoolV False)"
    by (simp add: attack_right_cases_def)
  have 4: "length (filter (\<lambda>c. c = BoolV True) [BoolV True, BoolV False, BoolV False, BoolV False]) \<le> 1"
    using t c by blast
  have 5: "list_all2 (\<lambda>r r'. map_of r' ''x_goal'' = is_goal_right example_sides r \<bind> goal_x example_constants
                         \<and> map_of r' ''y_goal'' = Some (FloatV (Y_GOAL example_constants)))
        example_sides ?out"
    using t d by blast
  have 6: "map (\<lambda>r. (map_of r ''team'', map_of r ''frameTime'', map_of r ''homeTeamStartLeft'',
                 map_of r ''x_goal'')) ?out
       = [(Some (StrV ''home''), Some (IntV 754), Some (BoolV True), Some (FloatV 52.5)),
          (Some (StrV ''away''), Some (IntV 3100), Some (BoolV True), Some (FloatV 52.5)),
          (Some (StrV ''away''), Some (IntV 754), Some (BoolV True), Some (FloatV (- 52.5))),
          (Some (StrV ''home''), Some (IntV 3100), Some (BoolV True), Some (FloatV (- 52.5))),
          (Some (StrV ''home''), Some (IntV 754), Some (BoolV False), Some (FloatV (- 52.5))),
          (Some (StrV ''home''), Some (IntV 3100), Some (BoolV False), Some (FloatV 52.5)),
          (Some (StrV ''away''), Some (IntV 754), Some (BoolV False), Some (FloatV 52.5)),
          (Some (StrV ''away''), Some (IntV 3100), Some (BoolV False), Some (FloatV (- 52.5)))]"
    unfolding example_goals by (simp add: example_sides_def side_row_def)
  have "attack_right_cases (BoolV True) (BoolV False) (BoolV False)
       = Some (BoolV (True \<and> False \<and> \<not> False), BoolV (True \<and> \<not> False \<and> False),
               BoolV (\<not> True \<and> \<not> False \<and> \<not> False), BoolV (\<not> True \<and> False \<and> False))"
    using t by blast
  then have 7: "attack_right_cases (BoolV True) (BoolV False) (BoolV False)
       = Some (BoolV False, BoolV False, BoolV False, BoolV False)"
    by simp
  have "goal_right (BoolV True) (BoolV False) (BoolV False)
       = Some (BoolV ((True \<and> False \<and> \<not> False) \<or> (True \<and> \<not> False \<and> False)
                      \<or> (\<not> True \<and> \<not> False \<and> \<not> False) \<or> (\<not> True \<and> False \<and> False)))"
    using t by blast
  then have 8: "goal_right (BoolV True) (BoolV False) (BoolV False) = Some (BoolV False)"
    by simp
  have 9: "example_sides ! 4 = side_row ''home'' 754 False" by (simp add: example_sides_def)
  have r4: "map_of (example_sides ! 4) ''team'' = Some (StrV ''home'')
        \<and> map_of (example_sides ! 4) ''frameTime'' = Some (IntV 754) \<and> num (IntV 754) = Some 754
        \<and> map_of (example_sides ! 4) ''startPeriod2'' = Some (FloatV 3000) \<and> num (FloatV 3000) = Some 3000
        \<and> map_of (example_sides ! 4) ''homeTeamStartLeft'' = Some (BoolV False)"
    unfolding 9 by (simp add: side_row_def)
  have "is_goal_right example_sides (example_sides ! 4)
          = Some (BoolV ((''home'' = ''home'' \<and> False \<and> \<not> (3000::real) < 754)
                         \<or> (''home'' = ''home'' \<and> \<not> False \<and> (3000::real) < 754)
                         \<or> (''home'' \<noteq> ''home'' \<and> \<not> False \<and> \<not> (3000::real) < 754)
                         \<or> (''home'' \<noteq> ''home'' \<and> False \<and> (3000::real) < 754)))"
    using t r4 by blast
  then have 10: "is_goal_right example_sides (example_sides ! 4) = Some (BoolV False)"
    by simp
  show ?thesis using 1 2 3 4 5 6 7 8 9 10 by blast
qed

lemma bitlen_lt_power: "0 \<le> m \<Longrightarrow> m < 2 ^ nat (bitlen m)"
  using bitlen_bounds[of m] by (cases "m = 0") auto

lemma round_half_even_cases:
  "round_half_even m k = m div 2 ^ k \<or> round_half_even m k = m div 2 ^ k + 1"
  by (simp add: round_half_even_def Let_def)

lemma round_half_even_zero: "round_half_even m 0 = m"
  by (simp add: round_half_even_def)

lemma round_half_even_nonneg: "0 \<le> m \<Longrightarrow> 0 \<le> round_half_even m k"
  using round_half_even_cases[of m k] pos_imp_zdiv_nonneg_iff[of "2 ^ k" m] by auto

lemma round_half_even_nearest: "2 * \<bar>round_half_even m k * 2 ^ k - m\<bar> \<le> 2 ^ k"
proof -
  define q where "q = m div 2 ^ k"
  define r where "r = m mod 2 ^ k"
  have m: "m = q * 2 ^ k + r" unfolding q_def r_def by (rule div_mult_mod_eq[symmetric])
  have r: "0 \<le> r" "r < 2 ^ k" unfolding r_def by simp_all
  have "round_half_even m k = (if 2 * r < 2 ^ k then q else if 2 ^ k < 2 * r then q + 1
         else if even q then q else q + 1)"
    by (simp add: round_half_even_def Let_def q_def r_def)
  then show ?thesis unfolding m using r by (auto simp: algebra_simps)
qed

lemma round_to_double_sign:
  assumes "0 \<le> m" and "round_to_double m e = Finite q E"
  shows "0 \<le> q"
  using assms round_half_even_nonneg[of m]
  by (auto simp: round_to_double_def Let_def split: if_splits)

lemma round_to_double_finite:
  assumes m: "0 \<le> m" and e: "e \<le> 970" and b: "e + bitlen m \<le> 1023"
  shows "\<exists>q. round_to_double m e = Finite q (max e (max (e + bitlen m - 53) (- 1074)))
             \<and> 0 \<le> q \<and> q \<le> 2 ^ 53"
proof -
  define e' where "e' = max (e + bitlen m - 53) (- 1074)"
  define k where "k = nat (e' - e)"
  define q where "q = m div 2 ^ k"
  define r where "r = m mod 2 ^ k"
  define q' where "q' = round_half_even m k"
  have E: "e + int k = max e e'" unfolding k_def by linarith
  have "bitlen m - 53 \<le> int k" unfolding k_def e'_def by linarith
  then have "nat (bitlen m) \<le> k + 53" by simp
  then have "(2::int) ^ nat (bitlen m) \<le> 2 ^ (k + 53)" by (rule power_increasing) simp
  with bitlen_lt_power[OF m] have "m < 2 ^ (k + 53)" by (rule less_le_trans)
  then have "m < 2 ^ 53 * 2 ^ k" by (simp add: power_add mult.commute)
  moreover have "q * 2 ^ k + r = m" unfolding q_def r_def by (rule div_mult_mod_eq)
  moreover have "0 \<le> r" unfolding r_def by simp
  ultimately have "q * 2 ^ k < 2 ^ 53 * 2 ^ k" by linarith
  then have qlt: "q < 2 ^ 53" by (rule mult_right_less_imp_less) simp
  have q0: "0 \<le> q" unfolding q_def using m by (simp add: pos_imp_zdiv_nonneg_iff)
  have "q' = q \<or> q' = q + 1" unfolding q'_def q_def by (rule round_half_even_cases)
  then have q': "0 \<le> q'" "q' \<le> 2 ^ 53" using q0 qlt by auto
  then have "q' < 2 ^ nat 54" by simp
  then have "bitlen q' \<le> 54" by (simp add: bitlen_le_iff_power)
  moreover have "max e e' \<le> 970" using e b unfolding e'_def by linarith
  moreover have a: "\<bar>q'\<bar> = q'" using q'(1) by simp
  ultimately have "\<not> (1024 < bitlen \<bar>q'\<bar> + (e + int k))" using E by linarith
  moreover have "\<bar>m\<bar> = m" using m by simp
  ultimately have "round_to_double m e = Finite q' (e + int k)"
    unfolding round_to_double_def Let_def
    by (simp add: e'_def[symmetric] k_def[symmetric] q'_def[symmetric])
  then show ?thesis using q' E unfolding e'_def by auto
qed

lemma float_of_int_exact:
  assumes "0 \<le> n" and "n < 2 ^ 53"
  shows "float_of_int n = Finite n 0"
proof -
  have "bitlen n \<le> 53" using assms(2) by (simp add: bitlen_le_iff_power)
  then have k: "nat (max (0 + bitlen \<bar>n\<bar> - 53) (- 1074) - 0) = 0" using assms(1) by simp
  have "bitlen \<bar>n\<bar> \<le> 53" using \<open>bitlen n \<le> 53\<close> assms(1) by simp
  then have "\<not> (1024 < bitlen \<bar>n\<bar> + (0 + int 0))" by linarith
  then show ?thesis
    unfolding float_of_int_def round_to_double_def Let_def k round_half_even_zero by simp
qed

lemma py_int_nonneg: "0 \<le> m \<Longrightarrow> py_int (Finite m e) = Some k \<Longrightarrow> 0 \<le> k"
  by (auto simp: pos_imp_zdiv_nonneg_iff sgn_if split: if_splits)

lemma n_train_games_nonneg:
  assumes r: "float_le ratio (Finite 1 0)" and n: "0 \<le> n"
    and k: "n_train_games ratio n = Some k"
  shows "0 \<le> k"
proof -
  from r obtain m e where v: "ratio = Finite m e" by (cases ratio) auto
  define D where "D = 1 * 2 ^ nat (0 - min 0 e) - m * 2 ^ nat (e - min 0 e)"
  have D: "0 \<le> D" using r unfolding v D_def by (auto simp: Let_def min_def split: if_splits)
  have s: "float_sub (Finite 1 0) ratio = round_to_double D (min 0 e)"
    unfolding v D_def by (simp add: Let_def)
  from k obtain q1 E1 where d: "round_to_double D (min 0 e) = Finite q1 E1"
    unfolding n_train_games_def s by (cases "round_to_double D (min 0 e)") auto
  have q1: "0 \<le> q1" using D d by (rule round_to_double_sign)
  from k obtain q2 E2 where f: "float_of_int n = Finite q2 E2"
    unfolding n_train_games_def s d by (cases "float_of_int n") auto
  have q2: "0 \<le> q2" using n f unfolding float_of_int_def by (rule round_to_double_sign)
  from k obtain q E where p: "round_to_double (q1 * q2) (E1 + E2) = Finite q E"
    unfolding n_train_games_def s d f by (cases "round_to_double (q1 * q2) (E1 + E2)") auto
  have "0 \<le> q1 * q2" using q1 q2 by simp
  then have "0 \<le> q" using p by (rule round_to_double_sign)
  moreover have "py_int (Finite q E) = Some k" using k unfolding n_train_games_def s d f by (simp add: p)
  ultimately show ?thesis by (rule py_int_nonneg)
qed

lemma n_train_games_defined:
  assumes r0: "float_le (Finite 0 0) ratio" and r1: "float_le ratio (Finite 1 0)"
    and n: "0 \<le> n" "n < 2 ^ 53"
  shows "\<exists>k. n_train_games ratio n = Some k \<and> 0 \<le> k"
proof -
  from r1 obtain m e where v: "ratio = Finite m e" by (cases ratio) auto
  define ee where "ee = min 0 e"
  define D where "D = 1 * 2 ^ nat (0 - ee) - m * 2 ^ nat (e - ee)"
  have D0: "0 \<le> D" using r1 unfolding v D_def ee_def by (auto simp: Let_def min_def split: if_splits)
  have m0: "0 \<le> m" using r0 unfolding v by (simp add: Let_def min_def zero_le_mult_iff split: if_splits)
  have "D \<le> 2 ^ nat (- ee)" unfolding D_def using m0 by simp
  then have "D < 2 ^ nat (1 - ee)"
  proof -
    have "(2::int) ^ nat (- ee) < 2 ^ nat (1 - ee)"
      by (rule power_strict_increasing) (simp_all add: ee_def)
    with \<open>D \<le> 2 ^ nat (- ee)\<close> show ?thesis by linarith
  qed
  then have bD: "bitlen D \<le> 1 - ee" by (simp add: bitlen_le_iff_power ee_def)
  have ee0: "ee \<le> 0" by (simp add: ee_def)
  have s: "float_sub (Finite 1 0) ratio = round_to_double D ee"
    unfolding v D_def ee_def by (simp add: Let_def)
  have "ee \<le> 970" "ee + bitlen D \<le> 1023" using ee0 bD by linarith+
  from round_to_double_finite[OF D0 this] obtain q1 where
    d: "round_to_double D ee = Finite q1 (max ee (max (ee + bitlen D - 53) (- 1074)))"
    and q1: "0 \<le> q1" "q1 \<le> 2 ^ 53" by blast
  define E1 where "E1 = max ee (max (ee + bitlen D - 53) (- 1074))"
  have E1: "E1 \<le> 0" unfolding E1_def using ee0 bD by linarith
  have f: "float_of_int n = Finite n 0" using n by (rule float_of_int_exact)
  have p0: "0 \<le> q1 * n" using q1(1) n(1) by simp
  have "q1 * n \<le> 2 ^ 53 * n" using q1(2) n(1) by (rule mult_right_mono)
  also have "\<dots> < 2 ^ 53 * 2 ^ 53" using n(2) by simp
  finally have "q1 * n < 2 ^ nat 106" by simp
  then have bp: "bitlen (q1 * n) \<le> 106" by (simp add: bitlen_le_iff_power)
  have "E1 + 0 \<le> 970" "E1 + 0 + bitlen (q1 * n) \<le> 1023" using E1 bp by linarith+
  from round_to_double_finite[OF p0 this] obtain q E where
    p: "round_to_double (q1 * n) (E1 + 0) = Finite q E" and q: "0 \<le> q" by blast
  have "n_train_games ratio n = py_int (Finite q E)"
    unfolding n_train_games_def s d f E1_def[symmetric] using p by simp
  moreover obtain k where kk: "py_int (Finite q E) = Some k" by simp
  moreover have "0 \<le> k" using q kk by (rule py_int_nonneg)
  ultimately show ?thesis by simp
qed

lemma float_val_powi: "float_val m e = of_int m * 2 powi e"
proof (cases "0 \<le> e")
  case True
  then show ?thesis by (simp add: float_val_def power_int_def)
next
  case False
  have "inverse (2::real) ^ nat (- e) = 1 / 2 ^ nat (- e)"
    by (simp add: inverse_eq_divide power_one_over)
  then show ?thesis using False by (simp add: float_val_def power_int_def)
qed

lemma float_val_shift:
  assumes "e \<le> e1"
  shows "float_val m e1 = of_int (m * 2 ^ nat (e1 - e)) * 2 powi e"
proof -
  have "(2::real) powi e1 = 2 powi (e1 - e) * 2 powi e"
    by (simp flip: power_int_add)
  moreover have "(2::real) powi (e1 - e) = 2 ^ nat (e1 - e)"
    using assms by (simp add: power_int_def)
  ultimately show ?thesis by (simp add: float_val_powi)
qed

lemma float_le_val:
  "float_le (Finite m1 e1) (Finite m2 e2) \<longleftrightarrow> float_val m1 e1 \<le> float_val m2 e2"
proof -
  define e where "e = min e1 e2"
  have p: "0 < (2::real) powi e" by simp
  have "float_val m1 e1 \<le> float_val m2 e2 \<longleftrightarrow>
        real_of_int (m1 * 2 ^ nat (e1 - e)) * 2 powi e \<le> real_of_int (m2 * 2 ^ nat (e2 - e)) * 2 powi e"
    using float_val_shift[of e e1 m1] float_val_shift[of e e2 m2] by (simp add: e_def)
  also have "\<dots> \<longleftrightarrow> real_of_int (m1 * 2 ^ nat (e1 - e)) \<le> real_of_int (m2 * 2 ^ nat (e2 - e))"
    using p by (rule mult_le_cancel_right_pos)
  also have "\<dots> \<longleftrightarrow> m1 * 2 ^ nat (e1 - e) \<le> m2 * 2 ^ nat (e2 - e)"
    by (rule of_int_le_iff)
  finally show ?thesis by (simp add: Let_def e_def)
qed


lemma round_to_double_nearest:
  assumes "round_to_double m e = Finite q E"
  shows "e \<le> E \<and> - 1074 \<le> E \<and> 2 * \<bar>q * 2 ^ nat (E - e) - m\<bar> \<le> 2 ^ nat (E - e)"
proof -
  define k where "k = nat (max (e + bitlen \<bar>m\<bar> - 53) (- 1074) - e)"
  from assms have q: "q = round_half_even m k" and E: "E = e + int k"
    unfolding round_to_double_def Let_def k_def[symmetric] by (auto split: if_splits)
  have "nat (E - e) = k" unfolding E by simp
  moreover have "- 1074 \<le> E" unfolding E k_def by linarith
  ultimately show ?thesis using round_half_even_nearest[of m k] unfolding q E by simp
qed

lemma round_to_double_exact:
  assumes "\<bar>m\<bar> < 2 ^ 53" and "- 1074 \<le> e" and "e \<le> 970"
  shows "round_to_double m e = Finite m e"
proof -
  have b: "bitlen \<bar>m\<bar> \<le> 53" using assms(1) by (simp add: bitlen_le_iff_power)
  then have k: "nat (max (e + bitlen \<bar>m\<bar> - 53) (- 1074) - e) = 0" using assms(2) by simp
  have "\<not> (1024 < bitlen \<bar>m\<bar> + (e + int 0))" using b assms(3) by linarith
  then show ?thesis
    unfolding round_to_double_def Let_def k round_half_even_zero by simp
qed

lemma float_literals:
  "\<bar>float_val 3602879701896397 (- 52) - 8 / 10\<bar> \<le> 1 / 2 ^ 54"
  "\<bar>float_val 3602879701896397 (- 55) - 1 / 10\<bar> \<le> 1 / 2 ^ 57"
  "\<bar>float_val 6490371073168535 (- 109) - 1 / 10 ^ 17\<bar> \<le> 1 / 2 ^ 110"
  "float_val 1 (- 1) = 1 / 2"
  "float_val 1 (- 2) = 1 / 4"
  by (simp_all add: float_val_def)

lemma example_counts:
  "n_train_games (Finite 1 (- 1)) 2 = Some 1"
  "n_train_games (Finite 1 (- 2)) 2 = Some 1"
  "n_train_games (Finite 1 (- 1)) 1 = Some 0"
  "n_train_games (Finite 1 (- 1)) 0 = Some 0"
  "n_train_games float_0_8 5 = Some 0"
  "n_train_games float_0_1 10 = Some 9"
  "n_train_games float_1e_17 1 = Some 1"
  by code_simp+

lemma df_slice_head:
  "0 \<le> m \<Longrightarrow> df_slice xs 0 m = Some (take (nat m) xs)"
  by (auto simp: df_slice_def Let_def min_def max_def)

lemma df_slice_tail:
  "0 \<le> m \<Longrightarrow> df_slice xs m (int (length xs)) = Some (drop (nat m) xs)"
  by (auto simp: df_slice_def Let_def min_def max_def)

lemma df_slice_head_neg:
  "m < 0 \<Longrightarrow> df_slice xs 0 m =
     (if int (length xs) + m < 0 then None else Some (take (nat (int (length xs) + m)) xs))"
  by (auto simp: df_slice_def Let_def min_def max_def)

lemma df_slice_tail_neg:
  "m < 0 \<Longrightarrow> 0 \<le> int (length xs) + m \<Longrightarrow>
   df_slice xs m (int (length xs)) = Some (drop (nat (int (length xs) + m)) xs)"
  by (auto simp: df_slice_def Let_def min_def max_def add.commute)

lemma df_slice_pair:
  assumes "df_slice xs 0 m = Some a" and "df_slice xs m (int (length xs)) = Some b"
  shows "a @ b = xs"
proof (cases "m < 0")
  case True
  then have nn: "0 \<le> int (length xs) + m" and a: "a = take (nat (int (length xs) + m)) xs"
    using assms(1) by (auto simp: df_slice_head_neg split: if_splits)
  have "b = drop (nat (int (length xs) + m)) xs"
    using assms(2) df_slice_tail_neg[OF True nn] by simp
  then show ?thesis using a by simp
next
  case False
  then have "0 \<le> m" by simp
  then show ?thesis using assms by (auto simp: df_slice_head df_slice_tail)
qed

lemma split_Some:
  assumes "split_by_worldcup_phase df ratio = Some (tr, va)"
  shows "\<exists>ids a b. each game_id df = Some ids \<and> a @ b = sort (remdups ids)
           \<and> tr = semi_join df a \<and> va = semi_join df b"
proof -
  from assms obtain ids k a b where ids: "each game_id df = Some ids"
    and a: "df_slice (sort (remdups ids)) 0 k = Some a"
    and b: "df_slice (sort (remdups ids)) k (int (length (sort (remdups ids)))) = Some b"
    and r: "tr = semi_join df a" "va = semi_join df b"
    by (auto simp: split_by_worldcup_phase_def bind_eq_Some_conv Let_def)
  from df_slice_pair[OF a b] ids r show ?thesis by blast
qed

lemma match_ids_semi_join:
  assumes "each game_id df = Some ids" and "set a \<subseteq> set ids"
  shows "match_ids (semi_join df a) = {i. Some i \<in> set a}"
proof -
  have ids: "ids = map (\<lambda>r. the (game_id r)) df" using each_Some_map(1)[OF assms(1)] .
  show ?thesis
  proof (intro set_eqI iffI)
    fix i assume "i \<in> match_ids (semi_join df a)"
    then show "i \<in> {i. Some i \<in> set a}"
      by (auto simp: match_ids_def semi_join_def)
  next
    fix i assume "i \<in> {i. Some i \<in> set a}"
    then have i: "Some i \<in> set a" by simp
    then have "Some i \<in> set ids" using assms(2) by blast
    then obtain r where r: "r \<in> set df" and "the (game_id r) = Some i" unfolding ids by auto
    moreover have "game_id r \<noteq> None" using each_Some_map(2)[OF assms(1)] r by blast
    ultimately have "game_id r = Some (Some i)" by auto
    then show "i \<in> match_ids (semi_join df a)"
      using r i by (auto simp: match_ids_def semi_join_def)
  qed
qed

lemma match_ids_ids:
  assumes "each game_id df = Some ids"
  shows "match_ids df = {i. Some i \<in> set ids}"
proof -
  have ids: "ids = map (\<lambda>r. the (game_id r)) df" using each_Some_map(1)[OF assms(1)] .
  have ok: "\<forall>r\<in>set df. game_id r \<noteq> None" using each_Some_map(2)[OF assms(1)] .
  show ?thesis
  proof (intro set_eqI iffI)
    fix i assume "i \<in> match_ids df"
    then obtain r where "r \<in> set df" "game_id r = Some (Some i)" by (auto simp: match_ids_def)
    then show "i \<in> {i. Some i \<in> set ids}" unfolding ids by force
  next
    fix i assume "i \<in> {i. Some i \<in> set ids}"
    then obtain r where r: "r \<in> set df" and "the (game_id r) = Some i" unfolding ids by auto
    then have "game_id r = Some (Some i)" using ok by auto
    then show "i \<in> match_ids df" using r by (auto simp: match_ids_def)
  qed
qed

lemma split_partition:
  assumes "split_by_worldcup_phase df ratio = Some (tr, va)"
  shows "match_ids tr \<inter> match_ids va = {}"
    and "match_ids tr \<union> match_ids va = match_ids df"
    and "set tr \<inter> set va = {}"
    and "set tr \<union> set va \<subseteq> set df"
proof -
  from split_Some[OF assms] obtain ids a b where ids: "each game_id df = Some ids"
    and ab: "a @ b = sort (remdups ids)" and tr: "tr = semi_join df a" and va: "va = semi_join df b"
    by blast
  have "distinct (a @ b)" unfolding ab by simp
  then have disj: "set a \<inter> set b = {}" by simp
  have "set (a @ b) = set ids" unfolding ab by simp
  then have sub: "set a \<subseteq> set ids" "set b \<subseteq> set ids" and un: "set a \<union> set b = set ids" by auto
  have mt: "match_ids tr = {i. Some i \<in> set a}" unfolding tr using ids sub(1) by (rule match_ids_semi_join)
  have mv: "match_ids va = {i. Some i \<in> set b}" unfolding va using ids sub(2) by (rule match_ids_semi_join)
  show "match_ids tr \<inter> match_ids va = {}" unfolding mt mv using disj by auto
  show "match_ids tr \<union> match_ids va = match_ids df"
    unfolding mt mv match_ids_ids[OF ids] using un by auto
  show "set tr \<inter> set va = {}"
  proof (rule ccontr)
    assume "set tr \<inter> set va \<noteq> {}"
    then obtain r where "r \<in> set tr" and "r \<in> set va" by blast
    then obtain i j where "game_id r = Some (Some i)" "Some i \<in> set a"
      "game_id r = Some (Some j)" "Some j \<in> set b"
      unfolding tr va by (auto simp: semi_join_def split: option.splits)
    then show False using disj by auto
  qed
  show "set tr \<union> set va \<subseteq> set df" unfolding tr va by (auto simp: semi_join_def)
qed

lemma split_total:
  assumes "each game_id df = Some ids"
    and "n_train_games ratio (int (length (remdups ids))) = Some k" and "0 \<le> k"
  shows "split_by_worldcup_phase df ratio =
           Some (semi_join df (take (nat k) (sort (remdups ids))),
                 semi_join df (drop (nat k) (sort (remdups ids))))"
proof -
  have h: "df_slice (sort (remdups ids)) 0 k = Some (take (nat k) (sort (remdups ids)))"
    using assms(3) by (rule df_slice_head)
  have t: "df_slice (sort (remdups ids)) k (int (length (remdups ids)))
             = Some (drop (nat k) (sort (remdups ids)))"
    using df_slice_tail[OF assms(3), of "sort (remdups ids)"] by simp
  show ?thesis
    using assms(1,2) by (simp add: split_by_worldcup_phase_def Let_def h t)
qed

lemma split_defined:
  assumes "each game_id df = Some ids"
    and "float_le (Finite 0 0) ratio" and "float_le ratio (Finite 1 0)"
    and "length (remdups ids) < 2 ^ 53"
  shows "\<exists>k. n_train_games ratio (int (length (remdups ids))) = Some k \<and> 0 \<le> k
           \<and> split_by_worldcup_phase df ratio =
               Some (semi_join df (take (nat k) (sort (remdups ids))),
                     semi_join df (drop (nat k) (sort (remdups ids))))"
proof -
  have "int (length (remdups ids)) < 2 ^ 53" using assms(4) by (simp flip: of_nat_less_iff)
  with n_train_games_defined[OF assms(2,3), of "int (length (remdups ids))"]
  obtain k where k: "n_train_games ratio (int (length (remdups ids))) = Some k" "0 \<le> k"
    by auto
  with split_total[OF assms(1) k] show ?thesis by blast
qed

lemma sorted_two:
  assumes "set ids = {Some (1::int), Some 2}"
  shows "sort (remdups ids) = [Some 1, Some 2]"
proof -
  have "sort (remdups ids) = sorted_list_of_set (set ids)"
    by (simp add: sorted_list_of_set_sort_remdups)
  also have "\<dots> = [Some 1, Some 2]" unfolding assms by simp
  finally show ?thesis .
qed



lemma split_two_matches:
  assumes "set (map game_id df) = {Some (Some 1), Some (Some 2)}"
  shows "\<exists>tr va. split_by_worldcup_phase df (Finite 1 (- 1)) = Some (tr, va)
           \<and> match_ids tr = {1} \<and> match_ids va = {2} \<and> set tr \<inter> set va = {}"
proof -
  have ok: "\<forall>r\<in>set df. game_id r \<noteq> None" using assms by force
  define ids where "ids = map (\<lambda>r. the (game_id r)) df"
  have ids: "each game_id df = Some ids" unfolding ids_def using ok by (rule each_total)
  have "Some ` set ids = set (map game_id df)"
    unfolding ids_def using ok by (force simp: image_iff)
  moreover have "Some ` {Some (1::int), Some 2} = {Some (Some 1), Some (Some 2)}" by simp
  ultimately have "Some ` set ids = Some ` {Some (1::int), Some 2}" using assms by metis
  then have s: "set ids = {Some 1, Some 2}" by (metis inj_Some inj_image_eq_iff)
  have srt: "sort (remdups ids) = [Some 1, Some 2]" using s by (rule sorted_two)
  have "length (sort (remdups ids)) = 2" unfolding srt by simp
  then have len: "length (remdups ids) = 2" by simp
  have k: "n_train_games (Finite 1 (- 1)) (int (length (remdups ids))) = Some 1"
    unfolding len using example_counts(1) by simp
  have sp: "split_by_worldcup_phase df (Finite 1 (- 1)) = Some (semi_join df [Some 1], semi_join df [Some 2])"
    using split_total[OF ids k] by (simp add: srt)
  have a: "match_ids (semi_join df [Some 1]) = {1}"
    using match_ids_semi_join[OF ids, of "[Some 1]"] s by auto
  have b: "match_ids (semi_join df [Some 2]) = {2}"
    using match_ids_semi_join[OF ids, of "[Some 2]"] s by auto
  show ?thesis using sp a b split_partition(3)[OF sp] by blast
qed

text \<open>
  Claim C2. Whatever the input table and the ratio, when the split returns, the match
  identifiers of the train rows and those of the validation rows are disjoint and together
  are all the match identifiers of the input, and no row is in both outputs; for a ratio
  of at most 1 the split does return unless \<open>int\<close> raises (the product overflows), which
  it does not for a ratio between 0 and 1 and fewer than \<open>2 ^ 53\<close> matches; and when the
  input has exactly the matches 1 and 2 and the ratio is 0.5, the train rows are those of
  match 1 and the validation rows those of match 2.
\<close>

theorem split_disjoint_exhaustive:
  "(split_by_worldcup_phase df ratio = Some (tr, va) \<longrightarrow>
      match_ids tr \<inter> match_ids va = {} \<and> match_ids tr \<union> match_ids va = match_ids df
      \<and> set tr \<inter> set va = {})
   \<and> (each game_id df = Some ids \<and> float_le ratio (Finite 1 0)
        \<and> n_train_games ratio (int (length (remdups ids))) \<noteq> None \<longrightarrow>
        split_by_worldcup_phase df ratio \<noteq> None)
   \<and> (each game_id df = Some ids \<and> float_le (Finite 0 0) ratio \<and> float_le ratio (Finite 1 0)
        \<and> length (remdups ids) < 2 ^ 53 \<longrightarrow>
        split_by_worldcup_phase df ratio \<noteq> None)
   \<and> (set (map game_id df) = {Some (Some 1), Some (Some 2)} \<longrightarrow>
        (\<exists>tr va. split_by_worldcup_phase df (Finite 1 (- 1)) = Some (tr, va)
           \<and> match_ids tr = {1} \<and> match_ids va = {2} \<and> set tr \<inter> set va = {}))"
proof (intro conjI impI)
  assume a: "split_by_worldcup_phase df ratio = Some (tr, va)"
  show "match_ids tr \<inter> match_ids va = {}" using a by (rule split_partition(1))
  show "match_ids tr \<union> match_ids va = match_ids df" using a by (rule split_partition(2))
  show "set tr \<inter> set va = {}" using a by (rule split_partition(3))
next
  assume a: "each game_id df = Some ids \<and> float_le ratio (Finite 1 0)
        \<and> n_train_games ratio (int (length (remdups ids))) \<noteq> None"
  then obtain k where k: "n_train_games ratio (int (length (remdups ids))) = Some k" by auto
  have "0 \<le> k" using a k n_train_games_nonneg[of ratio "int (length (remdups ids))" k] by simp
  with a k show "split_by_worldcup_phase df ratio \<noteq> None"
    using split_total[of df ids ratio k] by simp
next
  assume "each game_id df = Some ids \<and> float_le (Finite 0 0) ratio \<and> float_le ratio (Finite 1 0)
        \<and> length (remdups ids) < 2 ^ 53"
  then show "split_by_worldcup_phase df ratio \<noteq> None"
    using split_defined[of df ids ratio] by auto
next
  assume "set (map game_id df) = {Some (Some 1), Some (Some 2)}"
  then show "\<exists>tr va. split_by_worldcup_phase df (Finite 1 (- 1)) = Some (tr, va)
           \<and> match_ids tr = {1} \<and> match_ids va = {2} \<and> set tr \<inter> set va = {}"
    by (rule split_two_matches)
qed

lemma two_matches_ids: "each game_id two_matches = Some [Some 1, Some 2, Some 1, Some 2]"
  by (simp add: two_matches_def game_id_def)

lemma two_matches_split:
  "split_by_worldcup_phase two_matches (Finite 1 (- 1)) =
   Some ([[(''gameId'', IntV 1), (''jerseyNum'', IntV 10)], [(''gameId'', IntV 1), (''jerseyNum'', IntV 7)]],
         [[(''gameId'', IntV 2), (''jerseyNum'', IntV 10)], [(''gameId'', IntV 2), (''jerseyNum'', IntV 9)]])"
  using split_total[OF two_matches_ids, of "Finite 1 (- 1)" 1] example_counts(1)
  by (simp add: semi_join_def two_matches_def game_id_def)

theorem split_disjoint_exhaustive_witness:
  "float_val 1 (- 1) = 1 / 2
   \<and> split_by_worldcup_phase two_matches (Finite 1 (- 1)) =
     Some ([[(''gameId'', IntV 1), (''jerseyNum'', IntV 10)], [(''gameId'', IntV 1), (''jerseyNum'', IntV 7)]],
           [[(''gameId'', IntV 2), (''jerseyNum'', IntV 10)], [(''gameId'', IntV 2), (''jerseyNum'', IntV 9)]])
   \<and> match_ids [[(''gameId'', IntV 1), (''jerseyNum'', IntV 10)], [(''gameId'', IntV 1), (''jerseyNum'', IntV 7)]]
       \<inter> match_ids [[(''gameId'', IntV 2), (''jerseyNum'', IntV 10)], [(''gameId'', IntV 2), (''jerseyNum'', IntV 9)]] = {}
   \<and> match_ids [[(''gameId'', IntV 1), (''jerseyNum'', IntV 10)], [(''gameId'', IntV 1), (''jerseyNum'', IntV 7)]]
       \<union> match_ids [[(''gameId'', IntV 2), (''jerseyNum'', IntV 10)], [(''gameId'', IntV 2), (''jerseyNum'', IntV 9)]]
       = match_ids two_matches
   \<and> split_by_worldcup_phase two_matches (Finite 1 (- 1)) \<noteq> None
   \<and> (\<exists>tr va. split_by_worldcup_phase two_matches (Finite 1 (- 1)) = Some (tr, va)
           \<and> match_ids tr = {1} \<and> match_ids va = {2} \<and> set tr \<inter> set va = {})"
proof -
  let ?tr = "[[(''gameId'', IntV 1), (''jerseyNum'', IntV 10)], [(''gameId'', IntV 1), (''jerseyNum'', IntV 7)]]"
  let ?va = "[[(''gameId'', IntV 2), (''jerseyNum'', IntV 10)], [(''gameId'', IntV 2), (''jerseyNum'', IntV 9)]]"
  note t = split_disjoint_exhaustive[where df = two_matches and ratio = "Finite 1 (- 1)" and tr = ?tr and va = ?va
             and ids = "[Some 1, Some 2, Some 1, Some 2]"]
  have g: "set (map game_id two_matches) = {Some (Some 1), Some (Some 2)}"
    by (auto simp: two_matches_def game_id_def)
  have f: "float_le (Finite 0 0) (Finite 1 (- 1)) \<and> float_le (Finite 1 (- 1)) (Finite 1 0)" by simp
  have l: "length (remdups [Some (1::int), Some 2, Some 1, Some 2]) < 2 ^ 53" by simp
  have n: "split_by_worldcup_phase two_matches (Finite 1 (- 1)) \<noteq> None"
    using t two_matches_ids f l by blast
  show ?thesis using t two_matches_split g n float_literals(4) by blast
qed


lemma five_matches_ids:
  "each game_id five_matches = Some [Some 3, Some 1, Some 5, Some 2, Some 4, Some 1]"
  by (simp add: five_matches_def game_id_def)




text \<open>
  Claim C4, as amended. The split raises no configuration error. Whenever \<open>int\<close> gives a
  number of training matches that is not negative, the split returns: with an empty train
  partition when that number is 0, with an empty validation partition when it is the
  number of matches or more, and with both empty when the input has no match identifier.
  For a ratio between 0 and 1 and fewer than \<open>2 ^ 53\<close> matches \<open>int\<close> does give such a
  number, and the split returns.
\<close>

theorem split_returns_empty_partitions:
  "(each game_id df = Some ids \<and> n_train_games ratio (int (length (remdups ids))) = Some k
      \<and> 0 \<le> k \<longrightarrow>
     (\<exists>tr va. split_by_worldcup_phase df ratio = Some (tr, va)
        \<and> (k = 0 \<longrightarrow> tr = [])
        \<and> (int (length (remdups ids)) \<le> k \<longrightarrow> va = [])
        \<and> (ids = [] \<longrightarrow> tr = [] \<and> va = [])))
   \<and> (each game_id df = Some ids \<and> float_le (Finite 0 0) ratio \<and> float_le ratio (Finite 1 0)
        \<and> length (remdups ids) < 2 ^ 53 \<longrightarrow>
        (\<exists>j tr va. n_train_games ratio (int (length (remdups ids))) = Some j \<and> 0 \<le> j
           \<and> split_by_worldcup_phase df ratio = Some (tr, va)))"
proof (intro conjI impI)
  assume a: "each game_id df = Some ids \<and> n_train_games ratio (int (length (remdups ids))) = Some k
      \<and> 0 \<le> k"
  have sp: "split_by_worldcup_phase df ratio =
           Some (semi_join df (take (nat k) (sort (remdups ids))),
                 semi_join df (drop (nat k) (sort (remdups ids))))"
    using a split_total by blast
  have 1: "semi_join df (take (nat k) (sort (remdups ids))) = []" if "k = 0"
    using that by (simp add: semi_join_def filter_empty_conv split: option.splits)
  have 2: "semi_join df (drop (nat k) (sort (remdups ids))) = []"
    if "int (length (remdups ids)) \<le> k"
  proof -
    have "length (sort (remdups ids)) \<le> nat k" using that by simp
    then have "drop (nat k) (sort (remdups ids)) = []" by (rule drop_all)
    then show ?thesis by (simp add: semi_join_def filter_empty_conv split: option.splits)
  qed
  have 3: "semi_join df (take (nat k) (sort (remdups ids))) = []
           \<and> semi_join df (drop (nat k) (sort (remdups ids))) = []"
    if "ids = []"
    using that by (simp add: semi_join_def filter_empty_conv split: option.splits)
  show "\<exists>tr va. split_by_worldcup_phase df ratio = Some (tr, va)
        \<and> (k = 0 \<longrightarrow> tr = [])
        \<and> (int (length (remdups ids)) \<le> k \<longrightarrow> va = [])
        \<and> (ids = [] \<longrightarrow> tr = [] \<and> va = [])"
    using sp 1 2 3 by blast
next
  assume "each game_id df = Some ids \<and> float_le (Finite 0 0) ratio \<and> float_le ratio (Finite 1 0)
        \<and> length (remdups ids) < 2 ^ 53"
  then show "\<exists>j tr va. n_train_games ratio (int (length (remdups ids))) = Some j \<and> 0 \<le> j
           \<and> split_by_worldcup_phase df ratio = Some (tr, va)"
    using split_defined[of df ids ratio] by blast
qed

lemma one_match_ids: "each game_id one_match = Some [Some 7, Some 7]"
  by (simp add: one_match_def game_id_def)

theorem split_returns_empty_partitions_witness:
  "\<bar>float_val 3602879701896397 (- 52) - 8 / 10\<bar> \<le> 1 / 2 ^ 54
   \<and> float_0_8 = Finite 3602879701896397 (- 52)
   \<and> n_train_games float_0_8 5 = Some 0
   \<and> (\<exists>va. split_by_worldcup_phase five_matches float_0_8 = Some ([], va))
   \<and> \<bar>float_val 6490371073168535 (- 109) - 1 / 10 ^ 17\<bar> \<le> 1 / 2 ^ 110
   \<and> float_1e_17 = Finite 6490371073168535 (- 109)
   \<and> n_train_games float_1e_17 1 = Some 1
   \<and> (\<exists>tr. split_by_worldcup_phase one_match float_1e_17 = Some (tr, []))
   \<and> n_train_games (Finite 1 (- 1)) 0 = Some 0
   \<and> split_by_worldcup_phase [] (Finite 1 (- 1)) = Some ([], [])
   \<and> (\<exists>j tr va. n_train_games float_1e_17 1 = Some j \<and> 0 \<le> j
         \<and> split_by_worldcup_phase one_match float_1e_17 = Some (tr, va))"
proof -
  note t5 = split_returns_empty_partitions[where df = five_matches
      and ids = "[Some 3, Some 1, Some 5, Some 2, Some 4, Some 1]" and ratio = float_0_8 and k = 0]
  note t1 = split_returns_empty_partitions[where df = one_match
      and ids = "[Some 7, Some 7]" and ratio = float_1e_17 and k = 1]
  note t0 = split_returns_empty_partitions[where df = "[]" and ids = "[]"
      and ratio = "Finite 1 (- 1)" and k = 0]
  have l5: "int (length (remdups [Some (3::int), Some 1, Some 5, Some 2, Some 4, Some 1])) = 5"
    by simp
  have l1: "int (length (remdups [Some (7::int), Some 7])) = 1" by simp
  have l0: "int (length (remdups ([] :: int option list))) = 0" by simp
  have e0: "each game_id [] = Some []" by simp
  have 1: "\<exists>va. split_by_worldcup_phase five_matches float_0_8 = Some ([], va)"
    using t5 five_matches_ids example_counts(5) unfolding l5 by auto
  have 2: "\<exists>tr. split_by_worldcup_phase one_match float_1e_17 = Some (tr, [])"
    using t1 one_match_ids example_counts(7) unfolding l1 by auto
  have 3: "split_by_worldcup_phase [] (Finite 1 (- 1)) = Some ([], [])"
    using t0 e0 example_counts(4) unfolding l0 by auto
  have f: "float_le (Finite 0 0) float_1e_17 \<and> float_le float_1e_17 (Finite 1 0)"
    by (simp add: float_1e_17_def)
  have "length (remdups [Some (7::int), Some 7]) < 2 ^ 53" by simp
  then have 4: "\<exists>j tr va. n_train_games float_1e_17 1 = Some j \<and> 0 \<le> j
         \<and> split_by_worldcup_phase one_match float_1e_17 = Some (tr, va)"
    using t1 one_match_ids f unfolding l1 by blast
  show ?thesis
    using 1 2 3 4 float_literals(1,3) example_counts(4,5,7) float_0_8_def float_1e_17_def
    by blast
qed

theorem split_no_configuration_error_counterexample:
  "float_val 1 (- 1) = 1 / 2
   \<and> split_by_worldcup_phase one_match (Finite 1 (- 1)) = Some ([], one_match)
   \<and> split_by_worldcup_phase [] (Finite 1 (- 1)) = Some ([], [])
   \<and> split_by_worldcup_phase five_matches float_0_8 = Some ([], five_matches)
   \<and> split_by_worldcup_phase one_match float_1e_17 = Some (one_match, [])"
proof -
  have l1: "int (length (remdups [Some (7::int), Some 7])) = 1" by simp
  have l5: "int (length (remdups [Some (3::int), Some 1, Some 5, Some 2, Some 4, Some 1])) = 5"
    by simp
  have e0: "each game_id [] = Some []" by simp
  have 1: "split_by_worldcup_phase one_match (Finite 1 (- 1)) = Some ([], one_match)"
    using split_total[OF one_match_ids, of "Finite 1 (- 1)" 0] example_counts(3) unfolding l1
    by (simp add: semi_join_def one_match_def game_id_def)
  have 2: "split_by_worldcup_phase [] (Finite 1 (- 1)) = Some ([], [])"
    using split_total[OF e0, of "Finite 1 (- 1)" 0] example_counts(4)
    by (simp add: semi_join_def)
  have 3: "split_by_worldcup_phase five_matches float_0_8 = Some ([], five_matches)"
    using split_total[OF five_matches_ids, of float_0_8 0] example_counts(5) unfolding l5
    by (simp add: semi_join_def five_matches_def game_id_def)
  have 4: "split_by_worldcup_phase one_match float_1e_17 = Some (one_match, [])"
    using split_total[OF one_match_ids, of float_1e_17 1] example_counts(7) unfolding l1
    by (simp add: semi_join_def one_match_def game_id_def)
  show ?thesis using 1 2 3 4 float_literals(4) by blast
qed

lemma fit_transform_Some:
  assumes "fit_transform co p X = Some (Y, p')"
  shows "\<exists>s. learn co (spec p) X = Some s \<and> apply_learned co (spec p) s X = Some Y
            \<and> p' = p\<lparr>fitted := Some s, calls := calls p @ [Fit_transform X]\<rparr>"
  using assms by (auto simp: fit_transform_def bind_eq_Some_conv)

lemma transform_Some:
  assumes "transform co p X = Some (Y, p')"
  shows "\<exists>s. fitted p = Some s \<and> apply_learned co (spec p) s X = Some Y
            \<and> p' = p\<lparr>calls := calls p @ [Transform X]\<rparr>"
  using assms by (auto simp: transform_def bind_eq_Some_conv)

lemma process_Some:
  assumes "process cfg K lib co raw = Some b"
  shows "\<exists>df train_df val_df s train_t val_t.
           prepare_dataframe cfg K lib raw = Some df
         \<and> split_by_worldcup_phase df (val_ratio cfg) = Some (train_df, val_df)
         \<and> learn co (create_preprocessor cfg K train_df) train_df = Some s
         \<and> apply_learned co (create_preprocessor cfg K train_df) s train_df = Some train_t
         \<and> apply_learned co (create_preprocessor cfg K train_df) s val_df = Some val_t
         \<and> map_option fst (convert_dataframe_to_data_list co train_t) = Some (train_data b)
         \<and> map_option fst (convert_dataframe_to_data_list co val_t) = Some (val_data b)
         \<and> calls (preprocessor b) = [Fit_transform train_df, Transform val_df]
         \<and> fitted (preprocessor b) = Some s"
proof -
  from assms obtain df train_df val_df train_t p1 val_t p2 tl names vl x where
    df: "prepare_dataframe cfg K lib raw = Some df" and
    sp: "split_by_worldcup_phase df (val_ratio cfg) = Some (train_df, val_df)" and
    ft: "fit_transform co \<lparr>spec = create_preprocessor cfg K train_df, fitted = None, calls = []\<rparr> train_df
           = Some (train_t, p1)" and
    tr: "transform co p1 val_df = Some (val_t, p2)" and
    c1: "convert_dataframe_to_data_list co train_t = Some (tl, names)" and
    c2: "convert_dataframe_to_data_list co val_t = Some (vl, x)" and
    b: "b = \<lparr>train_data = tl, val_data = vl, feature_names = names, preprocessor = p2\<rparr>"
    by (auto simp: process_def bind_eq_Some_conv Let_def split: prod.splits)
  from fit_transform_Some[OF ft] obtain s where
    s: "learn co (create_preprocessor cfg K train_df) train_df = Some s" and
    a1: "apply_learned co (create_preprocessor cfg K train_df) s train_df = Some train_t" and
    p1: "p1 = \<lparr>spec = create_preprocessor cfg K train_df, fitted = Some s, calls = [Fit_transform train_df]\<rparr>"
    by auto
  from transform_Some[OF tr] have
    a2: "apply_learned co (create_preprocessor cfg K train_df) s val_df = Some val_t" and
    p2: "p2 = \<lparr>spec = create_preprocessor cfg K train_df, fitted = Some s,
               calls = [Fit_transform train_df, Transform val_df]\<rparr>"
    unfolding p1 by auto
  show ?thesis
    using df sp s a1 a2 c1 c2 unfolding b p2 by auto
qed

lemma cat_branch:
  assumes "(''cat'', steps, cols) \<in> set (transformers (create_preprocessor cfg K df))"
  shows "steps = cat_pipe \<and> cols = cat_cols"
  using assms by (auto simp: create_preprocessor_def split: if_splits)

lemma cat_learn_Some:
  assumes "cat_learn cat_pipe cols train = Some cats"
  shows "length cats = length cols"
    and "\<forall>j<length cols. set (cats ! j) =
           (\<lambda>r. impute_constant ''unknown'' (the (map_of r (cols ! j)))) ` set train"
proof -
  from assms obtain X where X: "each (\<lambda>r. each (map_of r) cols) train = Some X"
    and cats: "cats = map (\<lambda>j. remdups (map (\<lambda>xs. impute_constant ''unknown'' (xs ! j)) X)) [0..<length cols]"
    by (auto simp: cat_learn_def cat_pipe_def)
  show "length cats = length cols" unfolding cats by simp
  have Xeq: "X = map (\<lambda>r. the (each (map_of r) cols)) train"
    and ok: "\<forall>r\<in>set train. each (map_of r) cols \<noteq> None"
    using each_Some_map[OF X] by auto
  have row: "the (each (map_of r) cols) ! j = the (map_of r (cols ! j))"
    if "r \<in> set train" "j < length cols" for r j
  proof -
    from ok that(1) obtain xs where xs: "each (map_of r) cols = Some xs" by auto
    from each_Some_map(1)[OF xs] that(2) xs show ?thesis by simp
  qed
  show "\<forall>j<length cols. set (cats ! j) =
           (\<lambda>r. impute_constant ''unknown'' (the (map_of r (cols ! j)))) ` set train"
  proof (intro allI impI)
    fix j assume j: "j < length cols"
    have "set (cats ! j) = (\<lambda>xs. impute_constant ''unknown'' (xs ! j)) ` set X"
      unfolding cats using j by simp
    also have "\<dots> = (\<lambda>r. impute_constant ''unknown'' (the (each (map_of r) cols) ! j)) ` set train"
      unfolding Xeq by (simp add: image_image)
    also have "\<dots> = (\<lambda>r. impute_constant ''unknown'' (the (map_of r (cols ! j)))) ` set train"
      using row j by (intro image_cong) auto
    finally show "set (cats ! j) = (\<lambda>r. impute_constant ''unknown'' (the (map_of r (cols ! j)))) ` set train" .
  qed
qed

lemma onehot_ignore_total: "onehot Unknown_ignore dp cats v \<noteq> None"
  by (simp add: onehot_def)

lemma kept_subset: "set (kept_categories dp cats) \<subseteq> set cats"
  by (cases dp; cases cats) (auto simp: kept_categories_def)

lemma onehot_unseen:
  assumes "v \<notin> set cats"
  shows "onehot Unknown_ignore dp cats v = Some (replicate (length (kept_categories dp cats)) 0)"
proof -
  have "\<forall>c\<in>set (kept_categories dp cats). v \<noteq> c" using assms kept_subset by blast
  then have "map (\<lambda>c. if v = c then 1 else 0) (kept_categories dp cats)
             = replicate (length (kept_categories dp cats)) (0::int)"
    by (induction "kept_categories dp cats") (auto simp: map_replicate_const[symmetric] intro!: map_cong)
  then show ?thesis by (simp add: onehot_def)
qed

text \<open>
  Claim C8. For the categorical branch that the source configures, transforming a row
  does not raise, and for every categorical column in which the row's (imputed) value
  was not seen in the training data, the one-hot columns of that column are all zero.
\<close>

theorem unseen_category_encodes_zero:
  "(''cat'', steps, cols) \<in> set (transformers (create_preprocessor cfg K train))
   \<and> cat_learn steps cols train = Some cats \<and> each (map_of r) cols = Some xs \<longrightarrow>
     (\<exists>blocks. cat_apply steps cols cats r = Some blocks \<and> length blocks = length cols
        \<and> (\<forall>j<length cols.
              impute_constant ''unknown'' (xs ! j)
                \<notin> (\<lambda>r'. impute_constant ''unknown'' (the (map_of r' (cols ! j)))) ` set train \<longrightarrow>
              blocks ! j = replicate (length (blocks ! j)) 0))"
proof
  assume a: "(''cat'', steps, cols) \<in> set (transformers (create_preprocessor cfg K train))
   \<and> cat_learn steps cols train = Some cats \<and> each (map_of r) cols = Some xs"
  then have st: "steps = cat_pipe" using cat_branch by blast
  have cats: "cat_learn cat_pipe cols train = Some cats" and xs: "each (map_of r) cols = Some xs"
    using a st by auto
  have lc: "length cats = length cols" using cats by (rule cat_learn_Some(1))
  have lx: "length xs = length cols" using xs by (rule each_length)
  let ?f = "\<lambda>(cs, v). onehot Unknown_ignore Drop_if_binary cs (impute_constant ''unknown'' v)"
  define blocks where "blocks = map (\<lambda>p. the (?f p)) (zip cats xs)"
  have "\<forall>p\<in>set (zip cats xs). ?f p \<noteq> None"
    using onehot_ignore_total by (auto simp: case_prod_unfold)
  then have e: "each ?f (zip cats xs) = Some blocks" unfolding blocks_def by (rule each_total)
  have ap: "cat_apply steps cols cats r = Some blocks"
    unfolding st using xs e by (simp add: cat_apply_def cat_pipe_def)
  have lb: "length blocks = length cols" unfolding blocks_def using lc lx by simp
  have z: "blocks ! j = replicate (length (blocks ! j)) 0"
    if j: "j < length cols"
    and u: "impute_constant ''unknown'' (xs ! j)
                \<notin> (\<lambda>r'. impute_constant ''unknown'' (the (map_of r' (cols ! j)))) ` set train" for j
  proof -
    have "set (cats ! j) = (\<lambda>r'. impute_constant ''unknown'' (the (map_of r' (cols ! j)))) ` set train"
      using cat_learn_Some(2)[OF cats] j by blast
    then have "impute_constant ''unknown'' (xs ! j) \<notin> set (cats ! j)" using u by simp
    then have o: "onehot Unknown_ignore Drop_if_binary (cats ! j) (impute_constant ''unknown'' (xs ! j))
               = Some (replicate (length (kept_categories Drop_if_binary (cats ! j))) 0)"
      by (rule onehot_unseen)
    have "blocks ! j = the (onehot Unknown_ignore Drop_if_binary (cats ! j) (impute_constant ''unknown'' (xs ! j)))"
      unfolding blocks_def using j lc lx by simp
    then show ?thesis using o by simp
  qed
  show "\<exists>blocks. cat_apply steps cols cats r = Some blocks \<and> length blocks = length cols
        \<and> (\<forall>j<length cols.
              impute_constant ''unknown'' (xs ! j)
                \<notin> (\<lambda>r'. impute_constant ''unknown'' (the (map_of r' (cols ! j)))) ` set train \<longrightarrow>
              blocks ! j = replicate (length (blocks ! j)) 0)"
    using ap lb z by blast
qed

lemma example_cats:
  "cat_learn cat_pipe cat_cols example_train_cats =
     Some [[StrV ''PA'', StrV ''CR''], [StrV ''M'', StrV ''D'', StrV ''F''], [IntV 1, IntV 0],
           [IntV 1, IntV 0], [StrV ''20-28'', StrV ''29-35'']]"
  by (simp add: cat_learn_def cat_pipe_def cat_cols_def example_train_cats_def impute_constant_def
      upt_rec[of 0] upt_rec[of 1] upt_rec[of 2] upt_rec[of 3] upt_rec[of 4])

lemma example_encoding:
  "cat_apply cat_pipe cat_cols
     [[StrV ''PA'', StrV ''CR''], [StrV ''M'', StrV ''D'', StrV ''F''], [IntV 1, IntV 0],
      [IntV 1, IntV 0], [StrV ''20-28'', StrV ''29-35'']] example_val_row
   = Some [[0], [0, 0, 0], [0], [1], [0]]"
  by (simp add: cat_apply_def cat_pipe_def cat_cols_def example_val_row_def impute_constant_def
      onehot_def kept_categories_def)

theorem unseen_category_encodes_zero_witness:
  "cat_learn cat_pipe cat_cols example_train_cats =
     Some [[StrV ''PA'', StrV ''CR''], [StrV ''M'', StrV ''D'', StrV ''F''], [IntV 1, IntV 0],
           [IntV 1, IntV 0], [StrV ''20-28'', StrV ''29-35'']]
   \<and> cat_apply cat_pipe cat_cols
        [[StrV ''PA'', StrV ''CR''], [StrV ''M'', StrV ''D'', StrV ''F''], [IntV 1, IntV 0],
         [IntV 1, IntV 0], [StrV ''20-28'', StrV ''29-35'']] example_val_row
      = Some [[0], [0, 0, 0], [0], [1], [0]]
   \<and> (\<exists>blocks. cat_apply cat_pipe cat_cols
        [[StrV ''PA'', StrV ''CR''], [StrV ''M'', StrV ''D'', StrV ''F''], [IntV 1, IntV 0],
         [IntV 1, IntV 0], [StrV ''20-28'', StrV ''29-35'']] example_val_row = Some blocks
        \<and> length blocks = length cat_cols
        \<and> blocks ! 1 = replicate (length (blocks ! 1)) 0
        \<and> blocks ! 4 = replicate (length (blocks ! 4)) 0)"
proof -
  let ?cats = "[[StrV ''PA'', StrV ''CR''], [StrV ''M'', StrV ''D'', StrV ''F''], [IntV 1, IntV 0],
         [IntV 1, IntV 0], [StrV ''20-28'', StrV ''29-35'']]"
  let ?xs = "[StrV ''PA'', StrV ''GK'', IntV 1, IntV 0, StrV ''35+'']"
  note t = unseen_category_encodes_zero[where steps = cat_pipe and cols = cat_cols
             and cfg = example_cfg and K = example_constants and train = example_train_cats
             and cats = ?cats and r = example_val_row and xs = ?xs]
  have h1: "(''cat'', cat_pipe, cat_cols)
              \<in> set (transformers (create_preprocessor example_cfg example_constants example_train_cats))"
    by (simp add: create_preprocessor_def)
  have h3: "each (map_of example_val_row) cat_cols = Some ?xs"
    by (simp add: example_val_row_def cat_cols_def)
  have l: "length cat_cols = 5" by (simp add: cat_cols_def)
  have u1: "impute_constant ''unknown'' (?xs ! 1)
              \<notin> (\<lambda>r'. impute_constant ''unknown'' (the (map_of r' (cat_cols ! 1)))) ` set example_train_cats"
    by (simp add: example_train_cats_def cat_cols_def impute_constant_def)
  have u4: "impute_constant ''unknown'' (?xs ! 4)
              \<notin> (\<lambda>r'. impute_constant ''unknown'' (the (map_of r' (cat_cols ! 4)))) ` set example_train_cats"
    by (simp add: example_train_cats_def cat_cols_def impute_constant_def)
  from t h1 example_cats h3 obtain blocks where
    b: "cat_apply cat_pipe cat_cols ?cats example_val_row = Some blocks"
       "length blocks = length cat_cols" and
    z: "\<forall>j<length cat_cols.
              impute_constant ''unknown'' (?xs ! j)
                \<notin> (\<lambda>r'. impute_constant ''unknown'' (the (map_of r' (cat_cols ! j)))) ` set example_train_cats \<longrightarrow>
              blocks ! j = replicate (length (blocks ! j)) 0"
    by blast
  have "blocks ! 1 = replicate (length (blocks ! 1)) 0" using z u1 l by simp
  moreover have "blocks ! 4 = replicate (length (blocks ! 4)) 0" using z u4 l by simp
  ultimately show ?thesis using b example_cats example_encoding by blast
qed

text \<open>
  Claim C1. In a build that completes, the preprocessor receives exactly two calls, in
  this order: \<open>fit_transform\<close> with the training partition and \<open>transform\<close> with the
  validation partition; the state it holds at the end is the one learned from the
  training partition, and it is that state which is applied to the validation partition.
\<close>

theorem process_fits_on_train_only:
  "process cfg K lib co raw = Some b \<longrightarrow>
     (\<exists>df train_df val_df s train_t val_t.
           prepare_dataframe cfg K lib raw = Some df
         \<and> split_by_worldcup_phase df (val_ratio cfg) = Some (train_df, val_df)
         \<and> learn co (create_preprocessor cfg K train_df) train_df = Some s
         \<and> apply_learned co (create_preprocessor cfg K train_df) s train_df = Some train_t
         \<and> apply_learned co (create_preprocessor cfg K train_df) s val_df = Some val_t
         \<and> map_option fst (convert_dataframe_to_data_list co train_t) = Some (train_data b)
         \<and> map_option fst (convert_dataframe_to_data_list co val_t) = Some (val_data b)
         \<and> calls (preprocessor b) = [Fit_transform train_df, Transform val_df]
         \<and> fitted (preprocessor b) = Some s)"
  using process_Some by blast





lemma example_events_eval: "df_drop cols_to_drop example_raw =
   Some [event_row 1 10 Null Null (StrV ''Ann'') 50 30 1,
      event_row 1 10 (StrV ''home'') (StrV ''Ann'') (StrV ''Ann'') 40 20 0,
      event_row 1 10 (StrV ''away'') (StrV ''Bob'') (StrV ''Ann'') 60 25 0,
      event_row 2 20 Null Null (StrV ''Cy'') 10 5 2,
      event_row 2 20 (StrV ''away'') (StrV ''Cy'') (StrV ''Cy'') 12 6 0]"
  by code_simp

lemma example_kin_eval: "velocity_components
     [event_row 1 10 Null Null (StrV ''Ann'') 50 30 1,
      event_row 1 10 (StrV ''home'') (StrV ''Ann'') (StrV ''Ann'') 40 20 0,
      event_row 1 10 (StrV ''away'') (StrV ''Bob'') (StrV ''Ann'') 60 25 0,
      event_row 2 20 Null Null (StrV ''Cy'') 10 5 2,
      event_row 2 20 (StrV ''away'') (StrV ''Cy'') (StrV ''Cy'') 12 6 0]
   = Some [kin_row 1 10 Null Null (StrV ''Ann'') 50 30 1,
      kin_row 1 10 (StrV ''home'') (StrV ''Ann'') (StrV ''Ann'') 40 20 0,
      kin_row 1 10 (StrV ''away'') (StrV ''Bob'') (StrV ''Ann'') 60 25 0,
      kin_row 2 20 Null Null (StrV ''Cy'') 10 5 2,
      kin_row 2 20 (StrV ''away'') (StrV ''Cy'') (StrV ''Cy'') 12 6 0]"
  by (simp add: event_row_def kin_row_def velocity_components_def expr_eval)

lemma example_ball_eval: "ball_features example_kin \<bind> player_rows =
   Some [player_row 1 10 ''home'' ''Ann'' ''Ann'' 40 20 50 30 1,
         player_row 1 10 ''away'' ''Bob'' ''Ann'' 60 25 50 30 1,
         player_row 2 20 ''away'' ''Cy'' ''Cy'' 12 6 10 5 2]"
  by code_simp

lemma example_derived_eval: "derived_columns example_casts
        [player_row 1 10 ''home'' ''Ann'' ''Ann'' 40 20 50 30 1,
         player_row 1 10 ''away'' ''Bob'' ''Ann'' 60 25 50 30 1,
         player_row 2 20 ''away'' ''Cy'' ''Cy'' 12 6 10 5 2]
   = Some [derived_row 1 10 ''home'' 1 40 20 50 30 1,
           derived_row 1 10 ''away'' 0 60 25 50 30 1,
           derived_row 2 20 ''away'' 1 12 6 10 5 2]"
  by (simp add: player_row_def derived_row_def derived_columns_def example_casts_def
      decimal_def digit_of_def expr_eval)

lemma example_rest_eval: "df_with_columns [(''playerRole'', macro_role)]
          [derived_row 1 10 ''home'' 1 40 20 50 30 1,
           derived_row 1 10 ''away'' 0 60 25 50 30 1,
           derived_row 2 20 ''away'' 1 12 6 10 5 2]
      \<bind> possession_attribution \<bind> goal_assignment example_constants
      \<bind> df_drop [''team'', ''homeTeamStartLeft'', ''startPeriod2''] = Some example_prepared"
  by code_simp

lemma bind_chain: "x \<bind> f = Some y \<Longrightarrow> x \<bind> (\<lambda>a. f a \<bind> g) = g y"
  by (cases x) auto

lemma example_prepare:
  "prepare_dataframe example_cfg example_constants example_casts example_raw = Some example_prepared"
proof -
  let ?rest3 = "\<lambda>df. df_with_columns [(''playerRole'', macro_role)] df
      \<bind> possession_attribution \<bind> goal_assignment example_constants
      \<bind> df_drop [''team'', ''homeTeamStartLeft'', ''startPeriod2'']"
  let ?rest2 = "\<lambda>df. derived_columns example_casts df \<bind> ?rest3"
  have "prepare_dataframe example_cfg example_constants example_casts example_raw
        = ball_features example_kin \<bind> (\<lambda>df. player_rows df \<bind> ?rest2)"
    by (simp add: prepare_dataframe_def example_cfg_def example_events_eval
        example_kin_eval[folded example_kin_def])
  also have "\<dots> = ?rest2 [player_row 1 10 ''home'' ''Ann'' ''Ann'' 40 20 50 30 1,
         player_row 1 10 ''away'' ''Bob'' ''Ann'' 60 25 50 30 1,
         player_row 2 20 ''away'' ''Cy'' ''Cy'' 12 6 10 5 2]"
    using example_ball_eval by (rule bind_chain)
  also have "\<dots> = ?rest3 [derived_row 1 10 ''home'' 1 40 20 50 30 1,
           derived_row 1 10 ''away'' 0 60 25 50 30 1,
           derived_row 2 20 ''away'' 1 12 6 10 5 2]"
    by (simp add: example_derived_eval)
  also have "\<dots> = Some example_prepared" by (rule example_rest_eval)
  finally show ?thesis .
qed




lemma list_all2_rightD:
  assumes "list_all2 P xs ys" and "\<And>x y. P x y \<Longrightarrow> Q y"
  shows "\<forall>y\<in>set ys. Q y"
proof
  fix y assume "y \<in> set ys"
  then obtain i where i: "i < length ys" and y: "y = ys ! i" by (auto simp: in_set_conv_nth)
  from assms(1) i have "P (xs ! i) (ys ! i)" by (simp add: list_all2_conv_all_nth)
  then show "Q y" unfolding y by (rule assms(2))
qed

lemma keeps_player_rows:
  assumes "player_rows df = Some out"
  shows "keeps c df out"
proof -
  from assms obtain d1 d2 where
    d1: "df_filter (pl_is_not_null (pl_col ''team'')) df = Some d1" and
    d2: "df_filter (pl_ne (pl_col ''possessionEventType'') (pl_lit (StrV ''SH''))) d1 = Some d2" and
    out: "df_filter (pl_is_not_null (pl_col ''playerName'')) d2 = Some out"
    by (auto simp: player_rows_def bind_eq_Some_conv)
  have "keeps c df d1" using d1 by (rule keeps_filter)
  moreover have "keeps c d1 d2" using d2 by (rule keeps_filter)
  moreover have "keeps c d2 out" using out by (rule keeps_filter)
  ultimately show ?thesis by (blast intro: keeps_trans)
qed

lemma keeps_derived_columns:
  assumes "derived_columns lib df = Some out"
    and "c \<notin> {''frameTime'', ''is_ball_carrier'', ''Weight'', ''height_cm'', ''age'',
               ''playerName'', ''playerName_right''}"
  shows "keeps c df out"
proof -
  from assms(1) obtain d1 where
    d1: "df_with_columns
             [(''frameTime'', frame_seconds lib),
              (''is_ball_carrier'', is_ball_carrier),
              (''Weight'', lift1 (cast_float64 lib) (pl_str_replace ''kg'' [] (pl_col ''Weight''))),
              (''height_cm'', lift1 (cast_float64 lib) (pl_col ''height_cm'')),
              (''age'', age_band)] df = Some d1" and
    out: "df_drop [''playerName'', ''playerName_right''] d1 = Some out"
    by (auto simp: derived_columns_def bind_eq_Some_conv)
  have "keeps c df d1" using d1 by (rule keeps_with_columns) (use assms(2) in simp)
  moreover have "keeps c d1 out" using out by (rule keeps_drop) (use assms(2) in simp)
  ultimately show ?thesis by (rule keeps_trans)
qed

lemma keeps_possession_attribution:
  assumes "possession_attribution df = Some out"
    and "c \<noteq> ''possession_team_tmp''" and "c \<noteq> ''is_possession_team''"
  shows "keeps c df out"
proof -
  from assms(1) obtain d1 d2 d3 where
    d1: "df_with_columns [(''possession_team_tmp'', possession_team_tmp)] df = Some d1" and
    d2: "df_with_columns [(''is_possession_team'', is_possession_team)] d1 = Some d2" and
    d3: "df_drop [''possession_team_tmp''] d2 = Some d3" and
    out: "df_drop_nulls ''is_possession_team'' d3 = Some out"
    by (auto simp: possession_attribution_def bind_eq_Some_conv)
  have "keeps c df d1" using d1 by (rule keeps_with_columns) (use assms(2) in simp)
  moreover have "keeps c d1 d2" using d2 by (rule keeps_with_columns) (use assms(3) in simp)
  moreover have "keeps c d2 d3" using d3 by (rule keeps_drop) (use assms(2) in simp)
  moreover have "keeps c d3 out" using out by (rule keeps_drop_nulls)
  ultimately show ?thesis by (blast intro: keeps_trans)
qed

lemma prepare_dataframe_ball_height:
  assumes p: "prepare_dataframe cfg K lib raw = Some out" and b: "include_ball_features cfg"
  shows "\<forall>r\<in>set out. map_of r ''z'' = None \<and> map_of r ''z_ball'' \<noteq> None"
proof -
  from p b obtain d2 d3 d4 d5 d6 d7 d8 where
    d3: "ball_features d2 = Some d3" and
    d4: "player_rows d3 = Some d4" and
    d5: "derived_columns lib d4 = Some d5" and
    d6: "(if use_macro_roles cfg then df_with_columns [(''playerRole'', macro_role)] d5 else Some d5)
           = Some d6" and
    d7: "possession_attribution d6 = Some d7" and
    d8: "goal_assignment K d7 = Some d8" and
    out: "df_drop [''team'', ''homeTeamStartLeft'', ''startPeriod2''] d8 = Some out"
    unfolding prepare_dataframe_def by (auto simp: bind_eq_Some_conv)
  have tail: "keeps c d3 out"
    if c: "c \<notin> {''frameTime'', ''is_ball_carrier'', ''Weight'', ''height_cm'', ''age'',
                 ''playerName'', ''playerName_right'', ''playerRole'', ''possession_team_tmp'',
                 ''is_possession_team'', ''x_goal'', ''y_goal'', ''team'', ''homeTeamStartLeft'',
                 ''startPeriod2''}" for c
  proof -
    have k4: "keeps c d3 d4" using d4 by (rule keeps_player_rows)
    have k5: "keeps c d4 d5" using d5 by (rule keeps_derived_columns) (use c in simp)
    have k6: "keeps c d5 d6"
    proof (cases "use_macro_roles cfg")
      case True
      with d6 have "df_with_columns [(''playerRole'', macro_role)] d5 = Some d6" by simp
      then show ?thesis by (rule keeps_with_columns) (use c in simp)
    next
      case False
      with d6 show ?thesis by (simp add: keeps_refl)
    qed
    have k7: "keeps c d6 d7" using d7 by (rule keeps_possession_attribution) (use c in simp_all)
    have k8: "keeps c d7 d8" using d8 by (rule keeps_goal_assignment) (use c in simp_all)
    have k9: "keeps c d8 out" using out by (rule keeps_drop) (use c in simp)
    from k4 k5 k6 k7 k8 k9 show ?thesis by (blast intro: keeps_trans)
  qed
  from d3 obtain e1 where
    e1: "df_with_columns (map (\<lambda>c. (c @ ''_ball'', ball_expr c)) ball_source_cols) d2 = Some e1" and
    e2: "df_drop [''z''] e1 = Some d3"
    by (auto simp: ball_features_def bind_eq_Some_conv)
  have "list_all2 (\<lambda>r r'. map_of r' ''z_ball'' = ball_expr ''z'' d2 r \<and> ball_expr ''z'' d2 r \<noteq> None) d2 e1"
    using e1 by (rule df_with_columns_value) (simp_all add: ball_source_cols_def)
  then have "\<forall>r\<in>set e1. map_of r ''z_ball'' \<noteq> None"
    by (rule list_all2_rightD) simp
  moreover have "keeps ''z_ball'' e1 d3" using e2 by (rule keeps_drop) simp
  ultimately have zb3: "\<forall>r\<in>set d3. map_of r ''z_ball'' \<noteq> None"
    using keeps_all[where P = "\<lambda>v. v \<noteq> None"] by blast
  have z3: "\<forall>r\<in>set d3. map_of r ''z'' = None"
    using ball_features_Some[OF d3] by (rule list_all2_rightD) simp
  have "keeps ''z'' d3 out" by (rule tail) simp
  then have z: "\<forall>r\<in>set out. map_of r ''z'' = None"
    using z3 by (rule keeps_all[where P = "\<lambda>v. v = None"])
  have "keeps ''z_ball'' d3 out" by (rule tail) simp
  then have zb: "\<forall>r\<in>set out. map_of r ''z_ball'' \<noteq> None"
    using zb3 by (rule keeps_all[where P = "\<lambda>v. v \<noteq> None"])
  from z zb show ?thesis by blast
qed

lemma example_ball_columns:
  "map (\<lambda>r. (map_of r ''team'', map_of r ''x_ball'', map_of r ''y_ball'', map_of r ''z_ball'', map_of r ''z''))
       (the (ball_features example_kin))
   = [(Some Null, Some (FloatV 50), Some (FloatV 30), Some (FloatV 1), None),
      (Some (StrV ''home''), Some (FloatV 50), Some (FloatV 30), Some (FloatV 1), None),
      (Some (StrV ''away''), Some (FloatV 50), Some (FloatV 30), Some (FloatV 1), None),
      (Some Null, Some (FloatV 10), Some (FloatV 5), Some (FloatV 2), None),
      (Some (StrV ''away''), Some (FloatV 10), Some (FloatV 5), Some (FloatV 2), None)]"
  by code_simp

lemma example_ball_defined: "ball_features example_kin \<noteq> None"
  by code_simp

lemma example_ball_names:
  "map (\<lambda>c. c @ ''_ball'') ball_source_cols
     = [''x_ball'', ''y_ball'', ''z_ball'', ''cos_ball'', ''sin_ball'', ''vx_ball'', ''vy_ball'']"
  by (simp add: ball_source_cols_def)

lemma ball_pipe_member:
  "include_ball_features cfg \<Longrightarrow>
   (''ball_pipe'', ball_loc_pipe, pos_cols @ angle_cols @ velocity_cols @ ball_cols)
     \<in> set (transformers (create_preprocessor cfg K tr))"
  by (simp add: create_preprocessor_def)

text \<open>
  Claim C7, as the specification words it, fails: the ball's height is carried. On the
  example frame, with ball-inclusion enabled, every row the Feature Deriver returns has
  a \<open>z_ball\<close> column holding the height of the ball of its group, and \<open>z_ball\<close>, \<open>cos_ball\<close>
  and \<open>sin_ball\<close> are among the columns handed to the ball pipeline, beside the positions
  and the velocities.
\<close>

theorem ball_height_retained_counterexample:
  "include_ball_features example_cfg
   \<and> prepare_dataframe example_cfg example_constants example_casts example_raw = Some example_prepared
   \<and> map (\<lambda>r. map_of r ''z_ball'') example_prepared
       = [Some (FloatV 1), Some (FloatV 1), Some (FloatV 2)]
   \<and> ''z_ball'' \<in> set ball_cols \<and> ''cos_ball'' \<in> set ball_cols \<and> ''sin_ball'' \<in> set ball_cols
   \<and> (''ball_pipe'', ball_loc_pipe, pos_cols @ angle_cols @ velocity_cols @ ball_cols)
       \<in> set (transformers (create_preprocessor example_cfg example_constants example_prepared))"
proof -
  have 1: "include_ball_features example_cfg" by (simp add: example_cfg_def)
  have 2: "map (\<lambda>r. map_of r ''z_ball'') example_prepared
       = [Some (FloatV 1), Some (FloatV 1), Some (FloatV 2)]"
    by (simp add: example_prepared_def prepared_row_def)
  have 3: "''z_ball'' \<in> set ball_cols \<and> ''cos_ball'' \<in> set ball_cols \<and> ''sin_ball'' \<in> set ball_cols"
    by (simp add: ball_cols_def)
  show ?thesis using 1 2 3 example_prepare ball_pipe_member[OF 1] by blast
qed

text \<open>
  Claim C7, amended. The ball step gives every row, in place, one column \<open>c_ball\<close> for
  each \<open>c\<close> of \<open>x\<close>, \<open>y\<close>, \<open>z\<close>, \<open>cos\<close>, \<open>sin\<close>, \<open>vx\<close>, \<open>vy\<close>: the value of \<open>c\<close> on the first ball
  row (null team) of the row's group (same game event and possession event), null when
  the group has no ball row; the raw column \<open>z\<close> is then dropped. With ball-inclusion
  enabled, every row the Feature Deriver returns has no \<open>z\<close> column and has a \<open>z_ball\<close>
  column, and the preprocessor has a ball pipeline whose columns include all seven ball
  columns, \<open>z_ball\<close> among them.
\<close>

theorem ball_features_broadcast:
  "(ball_features df = Some out \<longrightarrow>
      list_all2 (\<lambda>r r'.
          (\<forall>c\<in>set ball_source_cols.
              map_of r' (c @ ''_ball'') = (case ball_rows df r of [] \<Rightarrow> Some Null | b # _ \<Rightarrow> map_of b c))
          \<and> map_of r' ''z'' = None) df out)
   \<and> (include_ball_features cfg \<and> prepare_dataframe cfg K lib raw = Some prepared \<longrightarrow>
        list_all (\<lambda>r. map_of r ''z'' = None \<and> map_of r ''z_ball'' \<noteq> None) prepared)
   \<and> (include_ball_features cfg \<longrightarrow>
        (''ball_pipe'', ball_loc_pipe, pos_cols @ angle_cols @ velocity_cols @ ball_cols)
          \<in> set (transformers (create_preprocessor cfg K tr)))
   \<and> map (\<lambda>c. c @ ''_ball'') ball_source_cols
        = [''x_ball'', ''y_ball'', ''z_ball'', ''cos_ball'', ''sin_ball'', ''vx_ball'', ''vy_ball'']
   \<and> set (map (\<lambda>c. c @ ''_ball'') ball_source_cols) \<subseteq> set ball_cols"
proof (intro conjI impI)
  assume "ball_features df = Some out"
  then show "list_all2 (\<lambda>r r'.
          (\<forall>c\<in>set ball_source_cols.
              map_of r' (c @ ''_ball'') = (case ball_rows df r of [] \<Rightarrow> Some Null | b # _ \<Rightarrow> map_of b c))
          \<and> map_of r' ''z'' = None) df out"
    by (rule ball_features_Some)
next
  assume a: "include_ball_features cfg \<and> prepare_dataframe cfg K lib raw = Some prepared"
  then have "\<forall>r\<in>set prepared. map_of r ''z'' = None \<and> map_of r ''z_ball'' \<noteq> None"
    using prepare_dataframe_ball_height by blast
  then show "list_all (\<lambda>r. map_of r ''z'' = None \<and> map_of r ''z_ball'' \<noteq> None) prepared"
    by (simp add: list_all_iff)
next
  assume "include_ball_features cfg"
  then show "(''ball_pipe'', ball_loc_pipe, pos_cols @ angle_cols @ velocity_cols @ ball_cols)
          \<in> set (transformers (create_preprocessor cfg K tr))"
    by (rule ball_pipe_member)
next
  show "map (\<lambda>c. c @ ''_ball'') ball_source_cols
        = [''x_ball'', ''y_ball'', ''z_ball'', ''cos_ball'', ''sin_ball'', ''vx_ball'', ''vy_ball'']"
    by (rule example_ball_names)
next
  show "set (map (\<lambda>c. c @ ''_ball'') ball_source_cols) \<subseteq> set ball_cols"
    unfolding example_ball_names by (simp add: ball_cols_def)
qed

theorem ball_features_broadcast_witness:
  "ball_features example_kin \<noteq> None
   \<and> map (\<lambda>r. (map_of r ''team'', map_of r ''x_ball'', map_of r ''y_ball'', map_of r ''z_ball'', map_of r ''z''))
       (the (ball_features example_kin))
     = [(Some Null, Some (FloatV 50), Some (FloatV 30), Some (FloatV 1), None),
        (Some (StrV ''home''), Some (FloatV 50), Some (FloatV 30), Some (FloatV 1), None),
        (Some (StrV ''away''), Some (FloatV 50), Some (FloatV 30), Some (FloatV 1), None),
        (Some Null, Some (FloatV 10), Some (FloatV 5), Some (FloatV 2), None),
        (Some (StrV ''away''), Some (FloatV 10), Some (FloatV 5), Some (FloatV 2), None)]
   \<and> list_all2 (\<lambda>r r'.
          (\<forall>c\<in>set ball_source_cols.
              map_of r' (c @ ''_ball'') = (case ball_rows example_kin r of [] \<Rightarrow> Some Null | b # _ \<Rightarrow> map_of b c))
          \<and> map_of r' ''z'' = None) example_kin (the (ball_features example_kin))
   \<and> include_ball_features example_cfg
   \<and> prepare_dataframe example_cfg example_constants example_casts example_raw = Some example_prepared
   \<and> list_all (\<lambda>r. map_of r ''z'' = None \<and> map_of r ''z_ball'' \<noteq> None) example_prepared
   \<and> (''ball_pipe'', ball_loc_pipe, pos_cols @ angle_cols @ velocity_cols @ ball_cols)
        \<in> set (transformers (create_preprocessor example_cfg example_constants example_prepared))"
proof -
  let ?out = "the (ball_features example_kin)"
  note t = ball_features_broadcast[where df = example_kin and out = ?out and cfg = example_cfg
      and K = example_constants and lib = example_casts and raw = example_raw
      and prepared = example_prepared and tr = example_prepared]
  have d: "ball_features example_kin = Some ?out" using example_ball_defined by simp
  have c: "include_ball_features example_cfg" by (simp add: example_cfg_def)
  have 1: "list_all2 (\<lambda>r r'.
          (\<forall>c\<in>set ball_source_cols.
              map_of r' (c @ ''_ball'') = (case ball_rows example_kin r of [] \<Rightarrow> Some Null | b # _ \<Rightarrow> map_of b c))
          \<and> map_of r' ''z'' = None) example_kin ?out"
    using t d by blast
  have 2: "list_all (\<lambda>r. map_of r ''z'' = None \<and> map_of r ''z_ball'' \<noteq> None) example_prepared"
    using t c example_prepare by blast
  have 3: "(''ball_pipe'', ball_loc_pipe, pos_cols @ angle_cols @ velocity_cols @ ball_cols)
        \<in> set (transformers (create_preprocessor example_cfg example_constants example_prepared))"
    using t c by blast
  show ?thesis using example_ball_defined example_ball_columns 1 c example_prepare 2 3 by blast
qed

lemma example_split:
  "split_by_worldcup_phase example_prepared (val_ratio example_cfg)
     = Some (take 2 example_prepared, drop 2 example_prepared)"
proof -
  have e: "each game_id example_prepared = Some [Some 1, Some 1, Some 2]"
    by (simp add: example_prepared_def prepared_row_def game_id_def)
  have l: "int (length (remdups [Some (1::int), Some 1, Some 2])) = 2" by simp
  show ?thesis
    using split_total[OF e, of "Finite 1 (- 1)" 1] example_counts(1) unfolding l
    by (simp add: semi_join_def example_prepared_def prepared_row_def game_id_def example_cfg_def)
qed

lemma example_process_defined:
  "process example_cfg example_constants example_casts example_co example_raw \<noteq> None"
  by (simp add: process_def example_prepare example_split fit_transform_def transform_def
      example_co_def Let_def)

theorem process_fits_on_train_only_witness:
  "process example_cfg example_constants example_casts example_co example_raw \<noteq> None
   \<and> calls (preprocessor (the (process example_cfg example_constants example_casts example_co example_raw)))
       = [Fit_transform (take 2 example_prepared), Transform (drop 2 example_prepared)]
   \<and> fitted (preprocessor (the (process example_cfg example_constants example_casts example_co example_raw)))
       = Some (take 2 example_prepared)
   \<and> match_ids (take 2 example_prepared) = {1}
   \<and> match_ids (drop 2 example_prepared) = {2}"
proof -
  let ?b = "the (process example_cfg example_constants example_casts example_co example_raw)"
  have d: "process example_cfg example_constants example_casts example_co example_raw = Some ?b"
    using example_process_defined by simp
  from process_fits_on_train_only[where cfg = example_cfg and K = example_constants
      and lib = example_casts and co = example_co and raw = example_raw and b = ?b] d
  obtain df train_df val_df s where
    df: "prepare_dataframe example_cfg example_constants example_casts example_raw = Some df" and
    sp: "split_by_worldcup_phase df (val_ratio example_cfg) = Some (train_df, val_df)" and
    s: "learn example_co (create_preprocessor example_cfg example_constants train_df) train_df = Some s" and
    c: "calls (preprocessor ?b) = [Fit_transform train_df, Transform val_df]" and
    f: "fitted (preprocessor ?b) = Some s"
    by blast
  have "df = example_prepared" using df example_prepare by simp
  then have tv: "train_df = take 2 example_prepared" "val_df = drop 2 example_prepared"
    using sp example_split by simp_all
  have "s = train_df" using s by (simp add: example_co_def)
  then have 1: "fitted (preprocessor ?b) = Some (take 2 example_prepared)" using f tv by simp
  have 2: "calls (preprocessor ?b)
       = [Fit_transform (take 2 example_prepared), Transform (drop 2 example_prepared)]"
    using c tv by simp
  have 3: "match_ids (take 2 example_prepared) = {1}"
    by (simp add: match_ids_def example_prepared_def prepared_row_def game_id_def)
  have 4: "match_ids (drop 2 example_prepared) = {2}"
    by (simp add: match_ids_def example_prepared_def prepared_row_def game_id_def)
  show ?thesis using example_process_defined 1 2 3 4 by blast
qed

end
